theory Spec2Isabelle
  imports Main
begin

section \<open>The cluster module of caliban: accelerator validation, quota limits, job submission\<close>

text \<open>
  A shallow embedding of the parts of \<^verbatim>\<open>caliban/cluster/cluster.py\<close> that decide
  how accelerators are validated, how region quotas become resource limits, how job
  names are sanitized, how jobs are submitted and how long-running operations are
  awaited. Python exceptions are values of \<open>error\<close>; a function that may raise
  returns \<open>error + 'a\<close>. Python's \<^verbatim>\<open>None\<close> for an \<^verbatim>\<open>Optional\<close> is
  \<open>None\<close> of \<open>option\<close>. What a function logs or prints is returned as a list of
  events, in the order of emission.
\<close>

subsection \<open>Errors and data\<close>

datatype error = IndexError | KeyError | NameError | TypeError | ValueError | OverflowError

text \<open>
  \<^verbatim>\<open>GPUSpec\<close> and \<^verbatim>\<open>TPUSpec\<close> come from \<^verbatim>\<open>caliban.cloud.types\<close>: a pair of
  an accelerator kind (a member of the enumeration \<^verbatim>\<open>GPU\<close> or \<^verbatim>\<open>TPU\<close>) and a
  count, compared by value. The enumerations are parameters \<open>'g\<close> and \<open>'t\<close> of the
  model. \<^verbatim>\<open>Accelerator\<close> is the union of the two enumerations.
\<close>

record 'g GPUSpec =
  gpu :: 'g
  count :: int

record 't TPUSpec =
  tpu :: 't
  count :: int

datatype ('g, 't) Accelerator = GPU_kind 'g | TPU_kind 't

subsection \<open>Characters and strings\<close>

text \<open>
  A character is a Unicode code point below 256 (ASCII and the Latin-1 supplement), and
  \<open>ord\<close> is its code. On that range \<open>isupper\<close>, \<open>isalnum\<close> and \<open>lower\<close> are
  Python's \<^verbatim>\<open>str.isupper\<close>, \<^verbatim>\<open>str.isalnum\<close> and \<^verbatim>\<open>str.lower\<close>: the
  upper-case letters are A to Z and the accented capitals 192 to 222 without the
  multiplication sign 215, each 32 below its lower-case letter; alphanumeric are the
  ASCII letters and digits, the ordinal indicators 170 and 186, the micro sign 181,
  the superscripts 178, 179 and 185, the fractions 188 to 190, and the letters 192 to
  255 without 215 and the division sign 247. Code points from 256 on are outside the
  model.
\<close>

definition ord :: "char \<Rightarrow> nat" where
  "ord c = of_char c"

definition is_ascii :: "char \<Rightarrow> bool" where
  "is_ascii c = (ord c < 128)"

definition in_A_Z :: "char \<Rightarrow> bool" where
  "in_A_Z c = (65 \<le> ord c \<and> ord c \<le> 90)"

definition in_a_z :: "char \<Rightarrow> bool" where
  "in_a_z c = (97 \<le> ord c \<and> ord c \<le> 122)"

definition in_0_9 :: "char \<Rightarrow> bool" where
  "in_0_9 c = (48 \<le> ord c \<and> ord c \<le> 57)"

definition isupper :: "char \<Rightarrow> bool" where
  "isupper c = (in_A_Z c \<or> (192 \<le> ord c \<and> ord c \<le> 214) \<or> (216 \<le> ord c \<and> ord c \<le> 222))"

definition isalnum :: "char \<Rightarrow> bool" where
  "isalnum c =
     (in_0_9 c \<or> in_A_Z c \<or> in_a_z c \<or>
      ord c \<in> set [170, 178, 179, 181, 185, 186, 188, 189, 190] \<or>
      (192 \<le> ord c \<and> ord c \<le> 214) \<or> (216 \<le> ord c \<and> ord c \<le> 246) \<or> 248 \<le> ord c)"

definition lower_char :: "char \<Rightarrow> char" where
  "lower_char c = (if isupper c then char_of (ord c + 32) else c)"

definition lower :: "string \<Rightarrow> string" where
  "lower s = map lower_char s"

text \<open>\<^verbatim>\<open>str(n)\<close> for an integer: its decimal digits, with a minus sign when negative.\<close>

fun str_nat :: "nat \<Rightarrow> string" where
  "str_nat n = (if n < 10 then [char_of (48 + n)] else str_nat (n div 10) @ [char_of (48 + n mod 10)])"

declare str_nat.simps [simp del]

definition str :: "int \<Rightarrow> string" where
  "str i = (if i < 0 then CHR ''-'' # str_nat (nat (- i)) else str_nat (nat i))"

subsection \<open>Job name sanitization\<close>

text \<open>
  \<^verbatim>\<open>_sanitize_job_name\<close>. \<^verbatim>\<open>name[0]\<close> raises \<^verbatim>\<open>IndexError\<close> on the empty
  string; once that read has succeeded the name is not empty, and \<^verbatim>\<open>name[-1]\<close> is
  its last character.
\<close>

text \<open>
  What RFC 1123 allows in a name, as the docstring quotes it: lower-case alphanumeric
  characters (the ASCII letters a to z and the digits), the hyphen and the dot.
\<close>

definition dns_1123_char :: "char \<Rightarrow> bool" where
  "dns_1123_char c = (in_a_z c \<or> in_0_9 c \<or> c \<in> set [CHR ''-'', CHR ''.''])"

definition valid :: "char \<Rightarrow> bool" where
  "valid x = (isalnum x \<or> x \<in> set [CHR ''-'', CHR ''.''])"

definition sanitize_job_name :: "string \<Rightarrow> error + string" where
  "sanitize_job_name name0 =
     (let name1 = lower name0 in
      case name1 of
        [] \<Rightarrow> Inl IndexError
      | c # _ \<Rightarrow>
          (let name2 = (if \<not> isalnum c then ''job-'' @ name1 else name1);
               name3 = (if \<not> isalnum (last name2) then name2 @ ''-0'' else name2)
           in Inr (map (\<lambda>x. if valid x then x else CHR ''-'') name3)))"

subsection \<open>Accelerator specification\<close>

text \<open>\<^verbatim>\<open>Cluster.convert_accel_spec\<close>; the result \<open>None\<close> is the rejection.\<close>

definition convert_accel_spec ::
  "'g GPUSpec option \<Rightarrow> 't TPUSpec option \<Rightarrow> (('g, 't) Accelerator option \<times> int) option" where
  "convert_accel_spec gpu_spec tpu_spec =
     (if gpu_spec \<noteq> None \<and> tpu_spec \<noteq> None then None
      else case gpu_spec of
        Some g \<Rightarrow> Some (Some (GPU_kind (gpu g)), GPUSpec.count g)
      | None \<Rightarrow>
          (case tpu_spec of
             Some t \<Rightarrow> Some (Some (TPU_kind (tpu t)), TPUSpec.count t)
           | None \<Rightarrow> Some (None, 1)))"

subsection \<open>Dictionaries\<close>

text \<open>
  A Python \<^verbatim>\<open>dict\<close> keeps its keys in insertion order; assigning to a key that is
  present replaces the value in place. \<open>dict ps\<close> is \<^verbatim>\<open>dict(ps)\<close> for a list
  of pairs, \<open>dict_contains\<close> is \<^verbatim>\<open>k in d\<close> and \<open>dict_getitem\<close> is
  \<^verbatim>\<open>d[k]\<close>, which raises \<^verbatim>\<open>KeyError\<close> for a missing key.
\<close>

type_synonym ('k, 'v) dict = "('k \<times> 'v) list"

fun dict_setitem :: "('k, 'v) dict \<Rightarrow> 'k \<Rightarrow> 'v \<Rightarrow> ('k, 'v) dict" where
  "dict_setitem [] k v = [(k, v)]"
| "dict_setitem ((k', v') # d) k v =
     (if k' = k then (k, v) # d else (k', v') # dict_setitem d k v)"

definition dict :: "('k \<times> 'v) list \<Rightarrow> ('k, 'v) dict" where
  "dict ps = foldl (\<lambda>d (k, v). dict_setitem d k v) [] ps"

definition dict_contains :: "('k, 'v) dict \<Rightarrow> 'k \<Rightarrow> bool" where
  "dict_contains d k = (k \<in> set (map fst d))"

definition dict_getitem :: "('k, 'v) dict \<Rightarrow> 'k \<Rightarrow> error + 'v" where
  "dict_getitem d k = (case map_of d k of None \<Rightarrow> Inl KeyError | Some v \<Rightarrow> Inr v)"

subsection \<open>GPU validation\<close>

text \<open>What the GPU validation logs (\<^verbatim>\<open>logging.error\<close>) and prints.\<close>

datatype 'g gpu_event =
    Log_unsupported_gpu 'g string
  | Print_gpu 'g
  | Log_gpu_count 'g int string int

text \<open>
  \<^verbatim>\<open>_validate_gpu_spec_against_limits\<close>. When the kind is missing from the limits,
  the error is logged and the loop over the limits returns \<^verbatim>\<open>False\<close> in its first
  iteration; over an empty dictionary the loop body never runs, and control falls
  through to the count check, where \<^verbatim>\<open>gpu_limits[gpu_spec.gpu]\<close> is read.
\<close>

definition validate_gpu_spec_against_limits ::
  "'g GPUSpec \<Rightarrow> ('g, int) dict \<Rightarrow> string \<Rightarrow> (error + bool) \<times> 'g gpu_event list" where
  "validate_gpu_spec_against_limits gpu_spec gpu_limits limit_type =
     (let (returned, log) =
        (if \<not> dict_contains gpu_limits (gpu gpu_spec) then
           (case gpu_limits of
              [] \<Rightarrow> (None, [Log_unsupported_gpu (gpu gpu_spec) limit_type])
            | (g, m) # rest \<Rightarrow>
                (Some False, [Log_unsupported_gpu (gpu gpu_spec) limit_type, Print_gpu g]))
         else (None, []))
      in case returned of
           Some b \<Rightarrow> (Inr b, log)
         | None \<Rightarrow>
             (case dict_getitem gpu_limits (gpu gpu_spec) of
                Inl e \<Rightarrow> (Inl e, log)
              | Inr m \<Rightarrow>
                  if GPUSpec.count gpu_spec > m
                  then (Inr False,
                        log @ [Log_gpu_count (gpu gpu_spec) (GPUSpec.count gpu_spec) limit_type m])
                  else (Inr True, log)))"

text \<open>
  \<^verbatim>\<open>Cluster.validate_gpu_spec\<close>. \<open>zone_gpus\<close> is what
  \<^verbatim>\<open>_get_zone_gpu_types\<close> returned and \<open>available_gpu\<close> what
  \<^verbatim>\<open>self.get_gpu_types()\<close> returned (\<open>None\<close> when the query failed); the second
  is only looked at after the zone check has passed.
\<close>

definition gpu_limits_of :: "'g GPUSpec list \<Rightarrow> ('g, int) dict" where
  "gpu_limits_of specs = dict (map (\<lambda>x. (gpu x, GPUSpec.count x)) specs)"

definition validate_gpu_spec ::
  "'g GPUSpec option \<Rightarrow> 'g GPUSpec list option \<Rightarrow> 'g GPUSpec list option
     \<Rightarrow> (error + bool) \<times> 'g gpu_event list" where
  "validate_gpu_spec gpu_spec zone_gpus available_gpu =
     (case gpu_spec of
        None \<Rightarrow> (Inr True, [])
      | Some s \<Rightarrow>
          (case zone_gpus of
             None \<Rightarrow> (Inr False, [])
           | Some zs \<Rightarrow>
               (case validate_gpu_spec_against_limits s (gpu_limits_of zs) ''zone'' of
                  (Inl e, log) \<Rightarrow> (Inl e, log)
                | (Inr ok, log) \<Rightarrow>
                    if \<not> ok then (Inr False, log)
                    else
                      (case available_gpu of
                         None \<Rightarrow> (Inr False, log)
                       | Some cs \<Rightarrow>
                           (case validate_gpu_spec_against_limits s (gpu_limits_of cs) ''cluster'' of
                              (Inl e, log') \<Rightarrow> (Inl e, log @ log')
                            | (Inr ok', log') \<Rightarrow>
                                if \<not> ok' then (Inr False, log @ log')
                                else (Inr True, log @ log'))))))"

subsection \<open>Resource limits from region quotas\<close>

text \<open>
  A quota entry is a dictionary with the keys \<^verbatim>\<open>metric\<close>, \<^verbatim>\<open>limit\<close> and
  \<^verbatim>\<open>usage\<close>, parsed from the response of the compute API; its limit is any
  Python value. The model tells apart the integers, the finite floats and every other
  value. A finite float is given by an integer mantissa \<open>m\<close> and a binary exponent
  \<open>e\<close>: its value is \<open>m * 2^e\<close> (10.5 is 21 and -1). The code applies the
  builtins \<^verbatim>\<open>str\<close> and \<^verbatim>\<open>int\<close> to the limit: on an integer they are the
  decimal string and the identity; on a finite float \<^verbatim>\<open>int\<close> truncates toward
  zero; what \<^verbatim>\<open>str\<close> returns on a float and what both return on other values
  is a parameter of the model (\<^verbatim>\<open>int\<close> may raise there).
\<close>

datatype 'v pyvalue = Int_value int | Float_value int int | Other_value 'v

record 'v builtins =
  float_str :: "int \<Rightarrow> int \<Rightarrow> string"
  other_str :: "'v \<Rightarrow> string"
  other_int :: "'v \<Rightarrow> error + int"

text \<open>The whole part of \<open>m * 2^e\<close>, rounded toward zero.\<close>

definition float_trunc :: "int \<Rightarrow> int \<Rightarrow> int" where
  "float_trunc m e =
     (if 0 \<le> e then m * 2 ^ nat e
      else if 0 \<le> m then m div 2 ^ nat (- e)
      else - ((- m) div 2 ^ nat (- e)))"

definition py_str :: "'v builtins \<Rightarrow> 'v pyvalue \<Rightarrow> string" where
  "py_str B v =
     (case v of
        Int_value i \<Rightarrow> str i
      | Float_value m e \<Rightarrow> float_str B m e
      | Other_value u \<Rightarrow> other_str B u)"

definition py_int :: "'v builtins \<Rightarrow> 'v pyvalue \<Rightarrow> error + int" where
  "py_int B v =
     (case v of
        Int_value i \<Rightarrow> Inr i
      | Float_value m e \<Rightarrow> Inr (float_trunc m e)
      | Other_value u \<Rightarrow> other_int B u)"

text \<open>
  Builtins for examples: \<^verbatim>\<open>str\<close> on a float that is a whole number or a whole
  number and a half, from 0 up to \<open>10^16\<close> (\<^verbatim>\<open>10.0\<close>, \<^verbatim>\<open>10.5\<close>); no other
  float and no other value occurs in the examples.
\<close>

definition example_builtins :: "unit builtins" where
  "example_builtins =
     \<lparr>float_str =
        (\<lambda>m e. str (float_trunc m e) @
           (if float_trunc (2 * m) e = 2 * float_trunc m e then ''.0'' else ''.5'')),
      other_str = (\<lambda>u. []),
      other_int = (\<lambda>u. Inl TypeError)\<rparr>"

text \<open>
  A resource limit is a dictionary with the keys \<^verbatim>\<open>resourceType\<close> and
  \<^verbatim>\<open>maximum\<close>.
\<close>

record 'v quota =
  metric :: string
  limit :: "'v pyvalue"

record resource_limit =
  resourceType :: string
  maximum :: string

definition MAX_GB_PER_CPU :: int where
  "MAX_GB_PER_CPU = 64"

text \<open>
  \<^verbatim>\<open>gpu_re.match(metric)\<close> for the pattern
  \<^verbatim>\<open>^NVIDIA_(?P<gpu>[A-Z0-9]+)_GPUS$\<close>: the result is the group \<^verbatim>\<open>gpu\<close>. The
  class excludes the underscore, so the group is the longest run of class characters
  after the prefix. In Python \<^verbatim>\<open>$\<close> matches at the end of the string and also
  just before a newline that ends the string.
\<close>

fun strip_prefix :: "string \<Rightarrow> string \<Rightarrow> string option" where
  "strip_prefix [] s = Some s"
| "strip_prefix (p # ps) [] = None"
| "strip_prefix (p # ps) (c # cs) = (if p = c then strip_prefix ps cs else None)"

definition in_A_Z_0_9 :: "char \<Rightarrow> bool" where
  "in_A_Z_0_9 c = (in_A_Z c \<or> in_0_9 c)"

definition gpu_re_match :: "string \<Rightarrow> string option" where
  "gpu_re_match s =
     (case strip_prefix ''NVIDIA_'' s of
        None \<Rightarrow> None
      | Some rest \<Rightarrow>
          (let group = takeWhile in_A_Z_0_9 rest; tail = dropWhile in_A_Z_0_9 rest
           in if group \<noteq> [] \<and> (tail = ''_GPUS'' \<or> tail = ''_GPUS'' @ [CHR 0x0A])
              then Some group else None))"

text \<open>
  The loop of \<^verbatim>\<open>_generate_resource_limits\<close>, appending to \<open>limits\<close>. For
  \<^verbatim>\<open>CPUS\<close> the cpu entry holds \<^verbatim>\<open>str(limit)\<close> and the memory entry
  \<^verbatim>\<open>str(int(limit) * _MAX_GB_PER_CPU)\<close>; an exception of \<^verbatim>\<open>int(limit)\<close> ends
  the function.
\<close>

fun limits_loop ::
  "'v builtins \<Rightarrow> 'v quota list \<Rightarrow> resource_limit list \<Rightarrow> error + resource_limit list" where
  "limits_loop B [] limits = Inr limits"
| "limits_loop B (q # quotas) limits =
     (if metric q = ''CPUS'' then
        (case py_int B (limit q) of
           Inl e \<Rightarrow> Inl e
         | Inr n \<Rightarrow>
             limits_loop B quotas
               (limits @
                  [\<lparr>resourceType = ''cpu'', maximum = py_str B (limit q)\<rparr>,
                   \<lparr>resourceType = ''memory'', maximum = str (n * MAX_GB_PER_CPU)\<rparr>]))
      else
        (case gpu_re_match (metric q) of
           None \<Rightarrow> limits_loop B quotas limits
         | Some gpu_type \<Rightarrow>
             limits_loop B quotas
               (limits @
                  [\<lparr>resourceType = ''nvidia-tesla-'' @ lower gpu_type,
                    maximum = py_str B (limit q)\<rparr>])))"

text \<open>
  \<^verbatim>\<open>_generate_resource_limits\<close>; \<open>quotas\<close> is what \<^verbatim>\<open>_get_region_quotas\<close>
  returned.
\<close>

definition generate_resource_limits ::
  "'v builtins \<Rightarrow> 'v quota list option \<Rightarrow> error + resource_limit list option" where
  "generate_resource_limits B quotas =
     (case quotas of
        None \<Rightarrow> Inr None
      | Some qs \<Rightarrow> (case limits_loop B qs [] of Inl e \<Rightarrow> Inl e | Inr limits \<Rightarrow> Inr (Some limits)))"

text \<open>
  The rule for one quota entry: \<^verbatim>\<open>CPUS\<close> gives a cpu and a memory limit, a metric
  that the pattern matches gives one limit, anything else gives none.
\<close>

definition quota_limits :: "'v builtins \<Rightarrow> 'v quota \<Rightarrow> error + resource_limit list" where
  "quota_limits B q =
     (if metric q = ''CPUS'' then
        (case py_int B (limit q) of
           Inl e \<Rightarrow> Inl e
         | Inr n \<Rightarrow>
             Inr [\<lparr>resourceType = ''cpu'', maximum = py_str B (limit q)\<rparr>,
                  \<lparr>resourceType = ''memory'', maximum = str (n * 64)\<rparr>])
      else case gpu_re_match (metric q) of
        Some kind \<Rightarrow>
          Inr [\<lparr>resourceType = ''nvidia-tesla-'' @ lower kind, maximum = py_str B (limit q)\<rparr>]
      | None \<Rightarrow> Inr [])"

text \<open>
  The results of the entries put together, in order: the first exception, if there is
  one, and the concatenation of the limits otherwise.
\<close>

fun gather :: "(error + 'a list) list \<Rightarrow> error + 'a list" where
  "gather [] = Inr []"
| "gather (Inl e # rs) = Inl e"
| "gather (Inr xs # rs) = (case gather rs of Inl e \<Rightarrow> Inl e | Inr ys \<Rightarrow> Inr (xs @ ys))"

subsection \<open>Waiting for an operation\<close>

text \<open>
  The response of the operations API is a dictionary of which the loop reads the key
  \<^verbatim>\<open>status\<close>. The API is a sequence of responses: \<open>get i\<close> is what the call
  number \<open>i\<close> (from 0) of \<^verbatim>\<open>...operations().get(name=name).execute()\<close> returns.
\<close>

record operation =
  status :: string

datatype wait_event = Fetch | Log_error_getting_operation | Sleep int

text \<open>
  \<^verbatim>\<open>_wait_for_operation\<close>. The loop has no bound, so the model is a partial
  function: \<open>None\<close> means that the loop never returns. A result \<open>Some (r, trace)\<close>
  holds the returned value \<open>r\<close> (\<open>None\<close> for Python's \<^verbatim>\<open>None\<close>) and the
  fetches, sleeps and logs in order.
\<close>

partial_function (option) wait_loop ::
  "(nat \<Rightarrow> operation option) \<Rightarrow> string list \<Rightarrow> int \<Rightarrow> nat \<Rightarrow> wait_event list
     \<Rightarrow> (operation option \<times> wait_event list) option" where
  "wait_loop get conditions sleep_sec i trace =
     (case get i of
        None \<Rightarrow> Some (None, trace @ [Fetch, Log_error_getting_operation])
      | Some rsp \<Rightarrow>
          if status rsp \<in> set conditions then Some (Some rsp, trace @ [Fetch])
          else wait_loop get conditions sleep_sec (Suc i) (trace @ [Fetch, Sleep sleep_sec]))"

definition wait_for_operation ::
  "(nat \<Rightarrow> operation option) \<Rightarrow> string list \<Rightarrow> int
     \<Rightarrow> (operation option \<times> wait_event list) option" where
  "wait_for_operation get conditions sleep_sec = wait_loop get conditions sleep_sec 0 []"

text \<open>The defaults of \<^verbatim>\<open>conditions\<close> and \<^verbatim>\<open>sleep_sec\<close>.\<close>

definition default_conditions :: "string list" where
  "default_conditions = [''DONE'', ''ABORTING'']"

definition default_sleep_sec :: int where
  "default_sleep_sec = 1"

definition fetches :: "wait_event list \<Rightarrow> nat" where
  "fetches trace = length (filter (\<lambda>e. e = Fetch) trace)"

subsection \<open>Deleting a cluster\<close>

text \<open>
  \<^verbatim>\<open>Cluster.delete\<close>, for a connected cluster (the decorator
  \<^verbatim>\<open>connected(False)\<close> then runs the body). The body reads names through Python's
  scopes, so the model keeps the local frame and the names bound at module level: a
  name is found in the frame, else in the module (and the builtins, none of which is
  called \<^verbatim>\<open>rsp\<close>), else the read raises \<^verbatim>\<open>NameError\<close>.
\<close>

datatype pyval = PyNone | PyStr string | PyOperation operation | PyObject

type_synonym frame = "(string, pyval) dict"

text \<open>The names bound at the top level of the module, in source order.\<close>

definition module_globals :: "string list" where
  "module_globals =
    [''annotations'', ''Optional'', ''List'', ''Tuple'', ''Dict'', ''Any'', ''Union'',
     ''Enum'', ''os'', ''REMAINDER'', ''ArgumentTypeError'', ''re'', ''sys'', ''urllib3'',
     ''google'', ''container_v1'', ''GCPCluster'', ''NodePool'', ''compute_engine'',
     ''Credentials'', ''service_account'', ''googleapiclient'', ''discovery'',
     ''kubernetes'', ''V1Job'', ''V1ObjectMeta'', ''V1JobSpec'', ''V1Pod'',
     ''V1Container'', ''V1EnvVar'', ''V1PodTemplateSpec'', ''V1ResourceRequirements'',
     ''V1PodSpec'', ''V1Toleration'', ''V1DaemonSet'', ''logging'', ''caliban'', ''cli'',
     ''u'', ''conf'', ''TPU'', ''GPU'', ''Accelerator'', ''parse_machine_type'',
     ''MachineType'', ''GPUSpec'', ''TPUSpec'', ''parse_cmd_dict'', ''invoke_command'',
     ''generate_image_tag'', ''pp'', ''sleep'', ''requests'', ''yaml'', ''tqdm'',
     ''_COMPUTE_SCOPE_URL'', ''_COMPUTE_READONLY_SCOPE_URL'',
     ''_CLOUD_PLATFORM_SCOPE_URL'', ''_CLOUD_PLATFORM_CREDENTIALS_ENV'',
     ''_KUBE_SYSTEM_NAMESPACE'', ''_DEFAULT_NAMESPACE'', ''_BATCH_V1_VERSION'',
     ''_NODE_SELECTOR_GKE_ACCELERATOR'', ''_NODE_SELECTOR_INSTANCE_TYPE'',
     ''_NODE_SELECTOR_PREEMPTIBLE'', ''_CONTAINER_RESOURCE_LIMIT_TPU'',
     ''_CONTAINER_RESOURCE_LIMIT_GPU'', ''_TEMPLATE_META_ANNOTATION_TPU_TF_VERSION'',
     ''_ZONE_DEFAULT'', ''_DEFAULT_MACHINE_TYPE_CPU'', ''_DEFAULT_MACHINE_TYPE_GPU'',
     ''_DEFAULT_GPU_SPEC'', ''_DASHBOARD_JOB_URL'', ''_MAX_GB_PER_CPU'',
     ''_DEFAULT_CLUSTER_NAME'', ''_NVIDIA_DRIVER_COS_DAEMONSET_URL'', ''_user_verify'',
     ''_wait_for_operation'', ''_validate_gpu_spec_against_limits'', ''_parse_zone'',
     ''_parse_tpu_spec'', ''_get_zone_tpu_types'', ''_get_zone_gpu_types'',
     ''_get_region_quotas'', ''_generate_resource_limits'', ''_job_str'',
     ''_sanitize_job_name'', ''default_credentials'', ''credentials_from_file'',
     ''credentials_from_env'', ''_get_gcp_clusters'', ''_get_gcp_cluster'', ''connected'',
     ''_k'', ''Cluster'', ''_project_and_creds'', ''_with_cluster'', ''_cluster_create'',
     ''_cluster_delete'', ''_cluster_ls'', ''_node_pool_ls'', ''_pod_ls'', ''_job_ls'',
     ''_job_submit'', ''run_cli_command'', ''parser'', ''_PROJECT_FLAG'',
     ''_CREDS_FILE_FLAG'', ''_ZONE_FLAG'', ''_ZONE_WILDCARD_FLAG'', ''_CLUSTER_NAME_FLAG'',
     ''_NOGPU_FLAG'', ''_CLOUD_KEY_FLAG'', ''_EXTRAS_FLAG'', ''_DIR_FLAG'',
     ''_IMAGE_TAG_FLAG'', ''_MODULE_FLAG'', ''_MACHINE_TYPE_FLAG'', ''_GPU_SPEC_FLAG'',
     ''_TPU_SPEC_FLAG'', ''_PREEMPTIBLE_TPU_FLAG'', ''_FORCE_FLAG'', ''_JOB_NAME_FLAG'',
     ''_EXPERIMENT_CONFIG_FLAG'', ''_LABEL_FLAG'', ''_DRY_RUN_FLAG'',
     ''_PASSTHROUGH_ARGS'', ''_PREEMPTIBLE_FLAG'', ''_LS_FLAGS'', ''_CLUSTER_LS_FLAGS'',
     ''_JOB_LS_CMD'', ''_JOB_SUBMIT_CMD'', ''_JOB_CMD_DICT'', ''_POD_LS_CMD'',
     ''_POD_CMD_DICT'', ''_NODE_POOL_LS_CMD'', ''_NODE_POOL_CMD_DICT'',
     ''_CLUSTER_LS_CMD'', ''_CLUSTER_CREATE_FLAGS'', ''_CLUSTER_CREATE_CMD'',
     ''_CLUSTER_DELETE_CMD'', ''_COMMAND_DICT'']"

definition load_name :: "frame \<Rightarrow> string list \<Rightarrow> string \<Rightarrow> error + pyval" where
  "load_name locals globals n =
     (case map_of locals n of
        Some v \<Rightarrow> Inr v
      | None \<Rightarrow> if n \<in> set globals then Inr PyObject else Inl NameError)"

text \<open>\<^verbatim>\<open>v['status']\<close>: only a response dictionary can be subscripted.\<close>

definition getitem_status :: "pyval \<Rightarrow> error + string" where
  "getitem_status v = (case v of PyOperation r \<Rightarrow> Inr (status r) | _ \<Rightarrow> Inl TypeError)"

datatype delete_event = Log_error_deleting | Print_deleted | Waiting wait_event

text \<open>
  \<open>op0\<close> is what \<^verbatim>\<open>delete_cluster\<close> returned (the name of the operation, or
  \<open>None\<close>), \<open>get\<close> the responses of the operations API. The method returns
  \<^verbatim>\<open>None\<close> on every path that returns.
\<close>

definition delete ::
  "string option \<Rightarrow> (nat \<Rightarrow> operation option) \<Rightarrow> ((error + unit) \<times> delete_event list) option" where
  "delete op0 get =
     (let f0 = [(''self'', PyObject)];
          f1 = dict_setitem f0 ''op'' (case op0 of None \<Rightarrow> PyNone | Some x \<Rightarrow> PyObject)
      in case op0 of
           None \<Rightarrow> Some (Inr (), [Log_error_deleting])
         | Some x \<Rightarrow>
             (let f2 = dict_setitem f1 ''op_name'' (PyStr x)
              in case wait_for_operation get default_conditions default_sleep_sec of
                   None \<Rightarrow> None
                 | Some (w, trace) \<Rightarrow>
                     (let f3 = dict_setitem f2 ''op''
                                 (case w of None \<Rightarrow> PyNone | Some r \<Rightarrow> PyOperation r)
                      in case load_name f3 module_globals ''rsp'' of
                           Inl e \<Rightarrow> Some (Inl e, map Waiting trace)
                         | Inr rsp \<Rightarrow>
                             (case getitem_status rsp of
                                Inl e \<Rightarrow> Some (Inl e, map Waiting trace)
                              | Inr st \<Rightarrow>
                                  if st \<noteq> ''DONE''
                                  then Some (Inr (), map Waiting trace @ [Log_error_deleting])
                                  else Some (Inr (), map Waiting trace @ [Print_deleted])))))"

subsection \<open>Job submission\<close>

text \<open>
  \<open>k_trap\<close> is the decorator \<^verbatim>\<open>_k(error_value)\<close> around an API call: an
  exception of the call becomes \<open>error_value\<close>. An API call that raises is
  \<open>Inl\<close> of the exception's message.
\<close>

definition k_trap :: "'r \<Rightarrow> (string + 'r) \<Rightarrow> 'r" where
  "k_trap error_value outcome = (case outcome of Inl e \<Rightarrow> error_value | Inr response \<Rightarrow> response)"

text \<open>
  \<^verbatim>\<open>Cluster.submit_job\<close> on a connected cluster:
  \<^verbatim>\<open>_k(None)(self._batch_api.create_namespaced_job)(...)\<close>. The API is a function
  of the state \<open>'w\<close> of the remote cluster.
\<close>

definition submit_job ::
  "('w \<Rightarrow> 'j \<Rightarrow> (string + 'sj) \<times> 'w) \<Rightarrow> 'w \<Rightarrow> 'j \<Rightarrow> 'sj option \<times> 'w" where
  "submit_job create_namespaced_job w job =
     (case create_namespaced_job w job of
        (outcome, w') \<Rightarrow> (k_trap None (map_sum id Some outcome), w'))"

text \<open>
  The TPU check of \<^verbatim>\<open>_job_submit\<close> (under the comment \<^verbatim>\<open>validate tpu spec\<close>).
  \<open>available_tpu\<close> is what \<^verbatim>\<open>cluster.get_tpu_types()\<close> returned. The result is
  \<open>False\<close> where the source returns from \<^verbatim>\<open>_job_submit\<close>.
\<close>

datatype 't tpu_event = Log_error_tpu_types | Log_invalid_tpu_spec | Print_tpu 't int

definition job_submit_validate_tpu ::
  "'t TPUSpec option \<Rightarrow> 't TPUSpec list option \<Rightarrow> bool \<times> 't tpu_event list" where
  "job_submit_validate_tpu tpu_spec available_tpu =
     (case tpu_spec of
        None \<Rightarrow> (True, [])
      | Some t \<Rightarrow>
          (case available_tpu of
             None \<Rightarrow> (False, [Log_error_tpu_types])
           | Some ts \<Rightarrow>
               if t \<notin> set ts
               then (False, Log_invalid_tpu_spec # map (\<lambda>x. Print_tpu (tpu x) (TPUSpec.count x)) ts)
               else (True, [])))"

text \<open>
  The submission loop of \<^verbatim>\<open>_job_submit\<close> over the generated jobs. Every call of
  \<^verbatim>\<open>cluster.submit_job\<close> is recorded as \<open>Submit_job\<close>. The info log of a
  submitted job reads the arguments of its first container; a job that the backend
  returns is taken to have one, as every generated job has.
\<close>

datatype ('j, 'sj) loop_event = Submit_job 'j | Log_error_submitting 'j | Log_submitted 'sj

fun submit_loop ::
  "('w \<Rightarrow> 'j \<Rightarrow> 'sj option \<times> 'w) \<Rightarrow> 'j list \<Rightarrow> 'sj list \<Rightarrow> ('j, 'sj) loop_event list \<Rightarrow> 'w
     \<Rightarrow> 'sj list \<times> ('j, 'sj) loop_event list \<times> 'w" where
  "submit_loop submit [] submitted log w = (submitted, log, w)"
| "submit_loop submit (j # jobs) submitted log w =
     (case submit w j of
        (None, w') \<Rightarrow>
          submit_loop submit jobs submitted (log @ [Submit_job j, Log_error_submitting j]) w'
      | (Some sj, w') \<Rightarrow>
          submit_loop submit jobs (submitted @ [sj]) (log @ [Submit_job j, Log_submitted sj]) w')"

text \<open>
  What the backend answers to the submissions of a list of jobs, one after the other:
  the reference against which the loop is stated.
\<close>

fun responses :: "('w \<Rightarrow> 'j \<Rightarrow> 'sj option \<times> 'w) \<Rightarrow> 'w \<Rightarrow> 'j list \<Rightarrow> 'sj option list" where
  "responses submit w [] = []"
| "responses submit w (j # jobs) = fst (submit w j) # responses submit (snd (submit w j)) jobs"

text \<open>
  Readings of a log: the jobs for which \<^verbatim>\<open>submit_job\<close> was called, and the jobs
  whose failure was logged, each in the order of the log.
\<close>

definition attempted :: "('j, 'sj) loop_event list \<Rightarrow> 'j list" where
  "attempted log = concat (map (\<lambda>e. case e of Submit_job j \<Rightarrow> [j] | _ \<Rightarrow> []) log)"

definition logged_failures :: "('j, 'sj) loop_event list \<Rightarrow> 'j list" where
  "logged_failures log =
     concat (map (\<lambda>e. case e of Log_error_submitting j \<Rightarrow> [j] | _ \<Rightarrow> []) log)"

datatype ('g, 't, 'j, 'sj) submit_event =
    Gpu_validation "'g gpu_event"
  | Tpu_validation "'t tpu_event"
  | Print_dry_run_header
  | Print_job 'j
  | Submission "('j, 'sj) loop_event"

text \<open>The events of the submission loop within the log of \<^verbatim>\<open>_job_submit\<close>.\<close>

definition submissions :: "('g, 't, 'j, 'sj) submit_event list \<Rightarrow> ('j, 'sj) loop_event list" where
  "submissions log = concat (map (\<lambda>e. case e of Submission x \<Rightarrow> [x] | _ \<Rightarrow> []) log)"

text \<open>
  \<^verbatim>\<open>_job_submit\<close>. The arguments hold what the function reads from \<^verbatim>\<open>args\<close>;
  the cluster holds what its queries return, the jobs that
  \<^verbatim>\<open>create_simple_experiment_jobs\<close> generates for an accelerator (image tag, machine
  type, experiments and labels are inputs of that generation), and
  \<^verbatim>\<open>submit_job\<close>. The result \<open>Inr None\<close> is a bare \<^verbatim>\<open>return\<close>.
\<close>

datatype JobMode = CPU | GPU

record ('g, 't) submit_args =
  job_mode :: JobMode
  gpu_spec :: "'g GPUSpec option"
  tpu_spec :: "'t TPUSpec option"
  dry_run :: bool

record ('g, 't, 'j, 'sj, 'w) cluster =
  zone_gpus :: "'g GPUSpec list option"
  available_gpu :: "'g GPUSpec list option"
  available_tpu :: "'t TPUSpec list option"
  experiment_jobs :: "('g, 't) Accelerator option \<times> int \<Rightarrow> 'j list"
  cluster_submit_job :: "'w \<Rightarrow> 'j \<Rightarrow> 'sj option \<times> 'w"

definition job_submit ::
  "'g GPUSpec \<Rightarrow> ('g, 't) submit_args \<Rightarrow> ('g, 't, 'j, 'sj, 'w) cluster \<Rightarrow> 'w
     \<Rightarrow> (error + 'sj list option) \<times> ('g, 't, 'j, 'sj) submit_event list \<times> 'w" where
  "job_submit DEFAULT_GPU_SPEC args c w =
     (let gpu_spec1 = (if job_mode args = GPU \<and> gpu_spec args = None
                       then Some DEFAULT_GPU_SPEC else gpu_spec args)
      in case validate_gpu_spec gpu_spec1 (zone_gpus c) (available_gpu c) of
           (Inl e, glog) \<Rightarrow> (Inl e, map Gpu_validation glog, w)
         | (Inr ok, glog) \<Rightarrow>
             if \<not> ok then (Inr None, map Gpu_validation glog, w)
             else
               (case job_submit_validate_tpu (tpu_spec args) (available_tpu c) of
                  (ok', tlog) \<Rightarrow>
                    if \<not> ok'
                    then (Inr None, map Gpu_validation glog @ map Tpu_validation tlog, w)
                    else
                      (case convert_accel_spec gpu_spec1 (tpu_spec args) of
                         None \<Rightarrow>
                           (Inr None, map Gpu_validation glog @ map Tpu_validation tlog, w)
                       | Some accel_spec \<Rightarrow>
                           (let jobs = experiment_jobs c accel_spec
                            in if dry_run args
                               then (Inr None,
                                     map Gpu_validation glog @ map Tpu_validation tlog @
                                       Print_dry_run_header # map Print_job jobs, w)
                               else
                                 (case submit_loop (cluster_submit_job c) jobs [] [] w of
                                    (submitted, log, w') \<Rightarrow>
                                      (Inr (Some submitted),
                                       map Gpu_validation glog @ map Tpu_validation tlog @
                                         map Submission log, w'))))))"

section \<open>Properties\<close>

subsection \<open>Accelerator specification\<close>

text \<open>
  C7. \<open>convert_accel_spec\<close> rejects (returns \<open>None\<close>) when both a GPU and a TPU
  spec are given, returns the kind and count of the GPU spec when only that is given,
  the kind and count of the TPU spec when only that is given, and \<open>(None, 1)\<close> when
  neither is given.
\<close>

theorem convert_accel_spec_cases:
  "convert_accel_spec (Some g) (Some t) = None \<and>
   convert_accel_spec (Some g) (None :: 't TPUSpec option) =
     Some (Some (GPU_kind (gpu g)), GPUSpec.count g) \<and>
   convert_accel_spec (None :: 'g GPUSpec option) (Some t) =
     Some (Some (TPU_kind (tpu t)), TPUSpec.count t) \<and>
   convert_accel_spec (None :: 'g GPUSpec option) (None :: 't TPUSpec option) = Some (None, 1)"
  by (simp add: convert_accel_spec_def)

subsection \<open>Job name sanitization\<close>

lemmas char_class_defs =
  lower_def lower_char_def isupper_def in_A_Z_def in_a_z_def in_0_9_def isalnum_def valid_def ord_def

lemma lower_char_not_upper: "\<not> isupper (lower_char c)"
  by (auto simp: lower_char_def isupper_def in_A_Z_def ord_def)

lemma replace_alnum: "isalnum x \<Longrightarrow> (if valid x then x else CHR ''-'') = x"
  by (simp add: valid_def)

lemma fixed_chars:
  "\<not> isupper CHR ''-''" "\<not> isalnum CHR ''-''" "isalnum CHR ''j''" "isalnum CHR ''0''"
  "\<not> isupper CHR ''j''" "\<not> isupper CHR ''o''" "\<not> isupper CHR ''b''" "\<not> isupper CHR ''0''"
  by (simp_all add: isupper_def isalnum_def in_A_Z_def in_a_z_def in_0_9_def ord_def)

text \<open>
  On every name that is not empty the function returns, and the result is not empty,
  starts and ends with a character that \<open>isalnum\<close> accepts, holds only characters
  that \<open>valid\<close> accepts and no upper-case letter.
\<close>

lemma sanitize_job_name_nonempty:
  assumes "name \<noteq> []"
  shows "\<exists>r. sanitize_job_name name = Inr r \<and> r \<noteq> [] \<and> isalnum (hd r) \<and> isalnum (last r) \<and>
     (\<forall>c\<in>set r. valid c \<and> \<not> isupper c)"
proof -
  obtain c cs where nm: "lower name = c # cs"
    using assms(1) by (cases name) (auto simp: lower_def)
  have low: "\<forall>x\<in>set (c # cs). \<not> isupper x"
    unfolding nm [symmetric] by (auto simp: lower_def lower_char_not_upper)
  define name2 where "name2 = (if \<not> isalnum c then ''job-'' @ c # cs else c # cs)"
  define name3 where "name3 = (if \<not> isalnum (last name2) then name2 @ ''-0'' else name2)"
  define r where "r = map (\<lambda>x. if valid x then x else CHR ''-'') name3"
  have res: "sanitize_job_name name = Inr r"
    by (simp add: sanitize_job_name_def nm name2_def name3_def r_def Let_def)
  have n2: "name2 \<noteq> []" "isalnum (hd name2)" "\<forall>x\<in>set name2. \<not> isupper x"
    using low by (auto simp: name2_def fixed_chars)
  have n3: "name3 \<noteq> []" "isalnum (hd name3)" "isalnum (last name3)" "\<forall>x\<in>set name3. \<not> isupper x"
    using n2 by (auto simp: name3_def fixed_chars)
  have "r \<noteq> []" using n3 by (simp add: r_def)
  moreover have "isalnum (hd r)" using n3 by (simp add: r_def hd_map replace_alnum)
  moreover have "isalnum (last r)" using n3 by (simp add: r_def last_map replace_alnum)
  moreover have "\<forall>c\<in>set r. valid c \<and> \<not> isupper c"
    using n3(4) by (auto simp: r_def valid_def fixed_chars)
  ultimately show ?thesis using res by blast
qed

lemma ascii_lower_char: "is_ascii c \<Longrightarrow> is_ascii (lower_char c) \<and> \<not> in_A_Z (lower_char c)"
  by (auto simp: is_ascii_def lower_char_def isupper_def in_A_Z_def ord_def)

lemma ascii_valid_dns: "is_ascii c \<Longrightarrow> \<not> in_A_Z c \<Longrightarrow> valid c \<Longrightarrow> dns_1123_char c"
  by (auto simp: is_ascii_def valid_def isalnum_def dns_1123_char_def in_A_Z_def in_a_z_def in_0_9_def ord_def)

lemma dash_dns: "dns_1123_char CHR ''-''"
  by (simp add: dns_1123_char_def)

lemma fixed_ascii:
  "is_ascii CHR ''j''" "is_ascii CHR ''o''" "is_ascii CHR ''b''" "is_ascii CHR ''-''" "is_ascii CHR ''0''"
  "\<not> in_A_Z CHR ''j''" "\<not> in_A_Z CHR ''o''" "\<not> in_A_Z CHR ''b''" "\<not> in_A_Z CHR ''-''" "\<not> in_A_Z CHR ''0''"
  by (simp_all add: is_ascii_def in_A_Z_def ord_def)

text \<open>
  On a name of ASCII characters that is not empty, the result is made of the
  characters that RFC 1123 allows and neither starts nor ends with a hyphen or a dot.
\<close>

lemma sanitize_job_name_ascii:
  assumes "name \<noteq> []" and "list_all is_ascii name"
  shows "\<exists>r. sanitize_job_name name = Inr r \<and> r \<noteq> [] \<and> list_all dns_1123_char r \<and>
     hd r \<noteq> CHR ''-'' \<and> hd r \<noteq> CHR ''.'' \<and> last r \<noteq> CHR ''-'' \<and> last r \<noteq> CHR ''.''"
proof -
  obtain c cs where nm: "lower name = c # cs"
    using assms(1) by (cases name) (auto simp: lower_def)
  have low: "\<forall>x\<in>set (c # cs). is_ascii x \<and> \<not> in_A_Z x"
    unfolding nm [symmetric] using assms(2) by (auto simp: lower_def list_all_iff ascii_lower_char)
  define name2 where "name2 = (if \<not> isalnum c then ''job-'' @ c # cs else c # cs)"
  define name3 where "name3 = (if \<not> isalnum (last name2) then name2 @ ''-0'' else name2)"
  define r where "r = map (\<lambda>x. if valid x then x else CHR ''-'') name3"
  have res: "sanitize_job_name name = Inr r"
    by (simp add: sanitize_job_name_def nm name2_def name3_def r_def Let_def)
  have n2: "name2 \<noteq> []" "isalnum (hd name2)" "\<forall>x\<in>set name2. is_ascii x \<and> \<not> in_A_Z x"
    using low by (auto simp: name2_def fixed_chars fixed_ascii)
  have n3: "name3 \<noteq> []" "isalnum (hd name3)" "isalnum (last name3)"
    "\<forall>x\<in>set name3. is_ascii x \<and> \<not> in_A_Z x"
    using n2 by (auto simp: name3_def fixed_chars fixed_ascii)
  have not_dash: "x \<noteq> CHR ''-'' \<and> x \<noteq> CHR ''.''" if "isalnum x" for x
    using that by (auto simp: isalnum_def in_A_Z_def in_a_z_def in_0_9_def ord_def)
  have "r \<noteq> []" using n3 by (simp add: r_def)
  moreover have "hd r = hd name3" using n3 by (simp add: r_def hd_map replace_alnum)
  moreover have "last r = last name3" using n3 by (simp add: r_def last_map replace_alnum)
  moreover have "list_all dns_1123_char r"
    using n3(4) by (auto simp: r_def list_all_iff ascii_valid_dns dash_dns)
  ultimately show ?thesis using res not_dash [OF n3(2)] not_dash [OF n3(3)] by auto
qed

text \<open>The read of the first character of the empty name raises.\<close>

lemma sanitize_job_name_empty:
  "sanitize_job_name [] = Inl IndexError"
  by (simp add: sanitize_job_name_def lower_def)

text \<open>
  C3. The name made of the one letter e with acute accent (code point 233) is returned
  as it is: \<^verbatim>\<open>str.isalnum\<close> accepts the letter and \<^verbatim>\<open>str.lower\<close> keeps it.
  The result holds a character that RFC 1123 does not allow, so it is no name of lower
  case alphanumeric characters, hyphens and dots in the sense of the docstring.
\<close>

theorem sanitize_job_name_e_acute:
  "sanitize_job_name [CHR 0xE9] = Inr [CHR 0xE9] \<and> \<not> dns_1123_char (CHR 0xE9)"
  by (simp add: sanitize_job_name_def char_class_defs dns_1123_char_def)

text \<open>
  C4, as the code has it. \<open>sanitize_job_name\<close> applied to \<^verbatim>\<open>My Job!\<close> returns
  \<^verbatim>\<open>my-job--0\<close>: the first character is a letter, so nothing is prefixed; the last
  one is not alphanumeric, so \<^verbatim>\<open>-0\<close> is appended; the space and the exclamation
  mark each become a hyphen.
\<close>

theorem sanitize_job_name_my_job:
  "sanitize_job_name ''My Job!'' = Inr ''my-job--0''"
  by (simp add: sanitize_job_name_def char_class_defs char_of_eq_iff)

text \<open>
  C4, as stated: the result for \<^verbatim>\<open>My Job!\<close> is not \<^verbatim>\<open>job-my-job-0\<close>.
\<close>

theorem sanitize_job_name_my_job_counterexample:
  "sanitize_job_name ''My Job!'' \<noteq> Inr ''job-my-job-0''"
  by (simp add: sanitize_job_name_def char_class_defs char_of_eq_iff)

subsection \<open>GPU validation\<close>

text \<open>Against an empty limits dictionary the read of the maximum raises.\<close>

lemma against_limits_empty:
  "validate_gpu_spec_against_limits s [] lt = (Inl KeyError, [Log_unsupported_gpu (gpu s) lt])"
  by (simp add: validate_gpu_spec_against_limits_def dict_contains_def dict_getitem_def)

text \<open>
  For a kind that is absent from a limits dictionary with at least one entry, the
  function returns \<open>False\<close> after printing the first key only.
\<close>

lemma against_limits_absent:
  "\<not> dict_contains (p # d) (gpu s) \<Longrightarrow>
   validate_gpu_spec_against_limits s (p # d) lt = (Inr False, [Log_unsupported_gpu (gpu s) lt, Print_gpu (fst p)])"
  by (cases p) (simp add: validate_gpu_spec_against_limits_def)

lemma dict_contains_map_of: "dict_contains d x \<longleftrightarrow> map_of d x \<noteq> None"
  by (simp add: dict_contains_def map_of_eq_None_iff)

lemma against_limits_True_iff:
  "fst (validate_gpu_spec_against_limits s d lt) = Inr True \<longleftrightarrow>
     (\<exists>m. map_of d (gpu s) = Some m \<and> GPUSpec.count s \<le> m)"
proof (cases "map_of d (gpu s)")
  case None
  then have nc: "\<not> dict_contains d (gpu s)" by (simp add: dict_contains_map_of)
  show ?thesis
  proof (cases d)
    case Nil
    then show ?thesis by (simp add: against_limits_empty)
  next
    case (Cons p d')
    with nc None show ?thesis by (simp add: against_limits_absent)
  qed
next
  case (Some m)
  then have "dict_contains d (gpu s)" by (simp add: dict_contains_map_of)
  with Some show ?thesis
    by (auto simp: validate_gpu_spec_against_limits_def dict_getitem_def)
qed

lemma against_limits_present:
  "map_of d (gpu s) = Some m \<Longrightarrow>
   validate_gpu_spec_against_limits s d lt =
     (if GPUSpec.count s > m then (Inr False, [Log_gpu_count (gpu s) (GPUSpec.count s) lt m])
      else (Inr True, []))"
  by (simp add: validate_gpu_spec_against_limits_def dict_getitem_def dict_contains_map_of)

lemma validate_gpu_spec_True_iff:
  "fst (validate_gpu_spec (Some s) zg ag) = Inr True \<longleftrightarrow>
     (\<exists>zs cs zmax cmax. zg = Some zs \<and> ag = Some cs \<and>
        map_of (gpu_limits_of zs) (gpu s) = Some zmax \<and>
        map_of (gpu_limits_of cs) (gpu s) = Some cmax \<and>
        GPUSpec.count s \<le> zmax \<and> GPUSpec.count s \<le> cmax)"
proof (cases zg)
  case None
  then show ?thesis by (simp add: validate_gpu_spec_def)
next
  case zs: (Some zs)
  obtain r1 l1 where v1: "validate_gpu_spec_against_limits s (gpu_limits_of zs) ''zone'' = (r1, l1)"
    by (cases "validate_gpu_spec_against_limits s (gpu_limits_of zs) ''zone''") 
  have z: "r1 = Inr True \<longleftrightarrow> (\<exists>m. map_of (gpu_limits_of zs) (gpu s) = Some m \<and> GPUSpec.count s \<le> m)"
    using against_limits_True_iff [of s "gpu_limits_of zs" "''zone''"] v1 by simp
  show ?thesis
  proof (cases "r1 = Inr True")
    case False
    then have "fst (validate_gpu_spec (Some s) zg ag) \<noteq> Inr True"
      using zs v1 by (auto simp: validate_gpu_spec_def split: sum.splits)
    with False z zs show ?thesis by auto
  next
    case True
    show ?thesis
    proof (cases ag)
      case None
      with True zs v1 show ?thesis by (simp add: validate_gpu_spec_def)
    next
      case cs: (Some cs)
      obtain r2 l2 where v2: "validate_gpu_spec_against_limits s (gpu_limits_of cs) ''cluster'' = (r2, l2)"
        by (cases "validate_gpu_spec_against_limits s (gpu_limits_of cs) ''cluster''") 
      have c: "r2 = Inr True \<longleftrightarrow> (\<exists>m. map_of (gpu_limits_of cs) (gpu s) = Some m \<and> GPUSpec.count s \<le> m)"
        using against_limits_True_iff [of s "gpu_limits_of cs" "''cluster''"] v2 by simp
      have "fst (validate_gpu_spec (Some s) zg ag) = Inr True \<longleftrightarrow> r2 = Inr True"
        using True zs cs v1 v2 by (auto simp: validate_gpu_spec_def split: sum.splits)
      with True z c zs cs show ?thesis by auto
    qed
  qed
qed

lemma validate_gpu_spec_zone_exceeded:
  "validate_gpu_spec (Some \<lparr>gpu = g, count = 2\<rparr>) (Some [\<lparr>gpu = g, count = 1\<rparr>]) avail =
     (Inr False, [Log_gpu_count g 2 ''zone'' 1])"
  by (simp add: validate_gpu_spec_def gpu_limits_of_def dict_def against_limits_present)

lemma validate_gpu_spec_within:
  "validate_gpu_spec (Some \<lparr>gpu = g, count = 2\<rparr>) (Some [\<lparr>gpu = g, count = 4\<rparr>])
     (Some [\<lparr>gpu = g, count = 8\<rparr>]) = (Inr True, [])"
  by (simp add: validate_gpu_spec_def gpu_limits_of_def dict_def against_limits_present)

text \<open>
  With no GPU type in the zone, \<open>validate_gpu_spec\<close> raises for every GPU request.
\<close>

lemma validate_gpu_spec_empty_zone:
  "validate_gpu_spec (Some s) (Some []) avail =
     (Inl KeyError, [Log_unsupported_gpu (gpu s) ''zone''])"
  by (simp add: validate_gpu_spec_def gpu_limits_of_def dict_def against_limits_empty)

text \<open>
  C1. \<open>validate_gpu_spec\<close> returns \<open>True\<close> for no GPU spec. For a GPU spec it
  returns \<open>True\<close> exactly when both limit maps were obtained, the kind has a maximum
  in the zone map and in the cluster map, and the count exceeds neither. A request of
  2 against a zone maximum of 1 returns \<open>False\<close> with the zone limit logged,
  whatever the cluster offers; a request of 2 against maxima 4 and 8 returns
  \<open>True\<close>.
\<close>

theorem validate_gpu_spec_correct:
  "validate_gpu_spec None zone avail = (Inr True, []) \<and>
   (fst (validate_gpu_spec (Some s) zone avail) = Inr True \<longleftrightarrow>
      (\<exists>zs cs zmax cmax. zone = Some zs \<and> avail = Some cs \<and>
         map_of (gpu_limits_of zs) (gpu s) = Some zmax \<and>
         map_of (gpu_limits_of cs) (gpu s) = Some cmax \<and>
         GPUSpec.count s \<le> zmax \<and> GPUSpec.count s \<le> cmax)) \<and>
   validate_gpu_spec (Some \<lparr>gpu = g, count = 2\<rparr>) (Some [\<lparr>gpu = g, count = 1\<rparr>]) cluster_gpus =
     (Inr False, [Log_gpu_count g 2 ''zone'' 1]) \<and>
   validate_gpu_spec (Some \<lparr>gpu = g, count = 2\<rparr>) (Some [\<lparr>gpu = g, count = 4\<rparr>])
     (Some [\<lparr>gpu = g, count = 8\<rparr>]) = (Inr True, [])"
  using validate_gpu_spec_True_iff [of s zone avail]
    validate_gpu_spec_zone_exceeded [of g cluster_gpus] validate_gpu_spec_within [of g]
  by (simp add: validate_gpu_spec_def)

text \<open>
  C9, on the empty limits dictionary: a request for one V100 against cluster limits
  without any GPU entry raises \<^verbatim>\<open>KeyError\<close> instead of returning \<open>False\<close>.
\<close>

theorem validate_gpu_spec_against_limits_empty:
  "validate_gpu_spec_against_limits \<lparr>gpu = ''V100'', count = 1\<rparr> [] ''cluster'' =
     (Inl KeyError, [Log_unsupported_gpu ''V100'' ''cluster''])"
  by (simp add: validate_gpu_spec_against_limits_def dict_contains_def dict_getitem_def)

subsection \<open>Resource limits\<close>

lemma limits_loop_acc:
  "limits_loop B qs acc =
     (case gather (map (quota_limits B) qs) of Inl e \<Rightarrow> Inl e | Inr ls \<Rightarrow> Inr (acc @ ls))"
proof (induction qs arbitrary: acc)
  case Nil
  show ?case by simp
next
  case (Cons q qs)
  show ?case
  proof (cases "metric q = ''CPUS''")
    case True
    show ?thesis
      using True
      by (cases "py_int B (limit q)")
         (simp_all add: quota_limits_def Cons.IH MAX_GB_PER_CPU_def split: sum.splits)
  next
    case False
    show ?thesis
      using False
      by (cases "gpu_re_match (metric q)")
         (simp_all add: quota_limits_def Cons.IH split: sum.splits)
  qed
qed

lemma generate_gather:
  "generate_resource_limits B (Some quotas) = map_sum id Some (gather (map (quota_limits B) quotas))"
  by (simp add: generate_resource_limits_def limits_loop_acc split: sum.splits)

lemma strip_prefix_append: "strip_prefix p (p @ r) = Some r"
  by (induction p) auto

lemma strip_prefix_Some: "strip_prefix p s = Some r \<Longrightarrow> s = p @ r"
  by (induction p s rule: strip_prefix.induct) (auto split: if_splits)

lemma underscore_not_class: "\<not> in_A_Z_0_9 CHR ''_''"
  by (simp add: in_A_Z_0_9_def in_A_Z_def in_0_9_def ord_def)

lemma gpu_re_match_kind:
  assumes "kind \<noteq> []" and "list_all in_A_Z_0_9 kind"
  shows "gpu_re_match (''NVIDIA_'' @ kind @ ''_GPUS'' @ nl) = 
     (if nl = [] \<or> nl = [CHR 0x0A] then Some kind else None)"
proof -
  define tail where "tail = ''_GPUS'' @ nl"
  define rest where "rest = kind @ tail"
  have all: "\<And>x. x \<in> set kind \<Longrightarrow> in_A_Z_0_9 x"
    using assms(2) by (simp add: list_all_iff)
  have hd: "\<not> in_A_Z_0_9 (hd tail)" "tail \<noteq> []"
    by (simp_all add: tail_def underscore_not_class)
  then have tl: "takeWhile in_A_Z_0_9 tail = []" "dropWhile in_A_Z_0_9 tail = tail"
    by (cases tail; simp)+
  have tw: "takeWhile in_A_Z_0_9 rest = kind"
    unfolding rest_def using all tl by (simp add: takeWhile_append2)
  have dw: "dropWhile in_A_Z_0_9 rest = tail"
    unfolding rest_def using all tl by (simp add: dropWhile_append2)
  have "gpu_re_match (''NVIDIA_'' @ rest) =
          (if tail = ''_GPUS'' \<or> tail = ''_GPUS'' @ [CHR 0x0A] then Some kind else None)"
    using assms(1) by (simp add: gpu_re_match_def tw dw)
  moreover have "tail = ''_GPUS'' \<or> tail = ''_GPUS'' @ [CHR 0x0A] \<longleftrightarrow> nl = [] \<or> nl = [CHR 0x0A]"
    by (simp add: tail_def)
  ultimately show ?thesis
    by (simp add: rest_def tail_def)
qed

lemma gpu_re_match_Some:
  assumes "gpu_re_match m = Some kind"
  shows "kind \<noteq> [] \<and> list_all in_A_Z_0_9 kind \<and>
         (m = ''NVIDIA_'' @ kind @ ''_GPUS'' \<or> m = ''NVIDIA_'' @ kind @ ''_GPUS'' @ [CHR 0x0A])"
proof -
  from assms obtain rest where sp: "strip_prefix ''NVIDIA_'' m = Some rest"
    by (auto simp: gpu_re_match_def split: option.splits)
  then have m: "m = ''NVIDIA_'' @ rest" by (rule strip_prefix_Some)
  from assms sp have k: "kind = takeWhile in_A_Z_0_9 rest" and ne: "kind \<noteq> []"
    and tl: "dropWhile in_A_Z_0_9 rest = ''_GPUS'' \<or> dropWhile in_A_Z_0_9 rest = ''_GPUS'' @ [CHR 0x0A]"
    by (auto simp: gpu_re_match_def Let_def split: if_splits)
  have "list_all in_A_Z_0_9 kind"
    unfolding k list_all_iff by (auto dest: set_takeWhileD)
  moreover have "rest = kind @ dropWhile in_A_Z_0_9 rest"
    unfolding k by simp
  ultimately show ?thesis using ne tl m by auto
qed

lemma gpu_re_match_language:
  "gpu_re_match m = Some kind \<longleftrightarrow>
     kind \<noteq> [] \<and> list_all in_A_Z_0_9 kind \<and>
     (m = ''NVIDIA_'' @ kind @ ''_GPUS'' \<or> m = ''NVIDIA_'' @ kind @ ''_GPUS'' @ [CHR 0x0A])"
  using gpu_re_match_Some [of m kind] gpu_re_match_kind [of kind "[]"]
    gpu_re_match_kind [of kind "[CHR 0x0A]"]
  by auto

lemma quota_limits_cpus:
  "quota_limits B \<lparr>metric = ''CPUS'', limit = L\<rparr> =
     (case py_int B L of
        Inl e \<Rightarrow> Inl e
      | Inr n \<Rightarrow>
          Inr [\<lparr>resourceType = ''cpu'', maximum = py_str B L\<rparr>,
               \<lparr>resourceType = ''memory'', maximum = str (n * 64)\<rparr>])"
  by (simp add: quota_limits_def split: sum.splits)

lemma quota_limits_gpu:
  assumes "kind \<noteq> []" and "list_all in_A_Z_0_9 kind"
    and "m = ''NVIDIA_'' @ kind @ ''_GPUS'' \<or> m = ''NVIDIA_'' @ kind @ ''_GPUS'' @ [CHR 0x0A]"
  shows "quota_limits B \<lparr>metric = m, limit = L\<rparr> =
           Inr [\<lparr>resourceType = ''nvidia-tesla-'' @ lower kind, maximum = py_str B L\<rparr>]"
proof -
  have "gpu_re_match m = Some kind"
    using assms by (simp add: gpu_re_match_language)
  moreover have "m \<noteq> ''CPUS''"
    using assms(3) by auto
  ultimately show ?thesis by (simp add: quota_limits_def)
qed

lemma quota_limits_other:
  assumes "m \<noteq> ''CPUS''"
    and "\<forall>kind. kind \<noteq> [] \<and> list_all in_A_Z_0_9 kind \<longrightarrow>
           m \<noteq> ''NVIDIA_'' @ kind @ ''_GPUS'' \<and> m \<noteq> ''NVIDIA_'' @ kind @ ''_GPUS'' @ [CHR 0x0A]"
  shows "quota_limits B \<lparr>metric = m, limit = L\<rparr> = Inr []"
proof (cases "gpu_re_match m")
  case None
  with assms(1) show ?thesis by (simp add: quota_limits_def)
next
  case (Some kind)
  then have "kind \<noteq> [] \<and> list_all in_A_Z_0_9 kind \<and>
     (m = ''NVIDIA_'' @ kind @ ''_GPUS'' \<or> m = ''NVIDIA_'' @ kind @ ''_GPUS'' @ [CHR 0x0A])"
    by (simp add: gpu_re_match_language)
  with assms(2) show ?thesis by blast
qed

text \<open>
  C2, as the code has it. The limits generated from a quota list are what the entries
  give, put together in input order; an exception of \<^verbatim>\<open>int(limit)\<close> ends the
  function. \<^verbatim>\<open>CPUS\<close> with limit \<open>L\<close> gives \<open>cpu = str(L)\<close> and then
  \<open>memory = str(int(L) * 64)\<close>, where \<open>int(L)\<close> is \<open>L\<close> for an integer and
  \<open>L\<close> truncated toward zero for a float. A metric \<^verbatim>\<open>NVIDIA_<KIND>_GPUS\<close>,
  \<open>KIND\<close> being one or more upper-case ASCII letters and digits, with or without one
  final newline, gives \<open>nvidia-tesla-<kind in lower case> = str(L)\<close>. Every other
  metric gives nothing. The quotas \<^verbatim>\<open>CPUS\<close> 10 and \<^verbatim>\<open>NVIDIA_V100_GPUS\<close> 4 give
  cpu 10, memory 640, nvidia-tesla-v100 4, in that order.
\<close>

theorem generate_resource_limits_rule:
  "generate_resource_limits B (Some quotas) =
     map_sum id Some (gather (map (quota_limits B) quotas)) \<and>
   quota_limits B \<lparr>metric = ''CPUS'', limit = L\<rparr> =
     (case py_int B L of
        Inl e \<Rightarrow> Inl e
      | Inr n \<Rightarrow>
          Inr [\<lparr>resourceType = ''cpu'', maximum = py_str B L\<rparr>,
               \<lparr>resourceType = ''memory'', maximum = str (n * 64)\<rparr>]) \<and>
   py_str B (Int_value i) = str i \<and> py_int B (Int_value i) = Inr i \<and>
   py_int B (Float_value fm fe) = Inr (float_trunc fm fe) \<and>
   (kind \<noteq> [] \<and> list_all in_A_Z_0_9 kind \<and>
    (m = ''NVIDIA_'' @ kind @ ''_GPUS'' \<or> m = ''NVIDIA_'' @ kind @ ''_GPUS'' @ [CHR 0x0A]) \<longrightarrow>
      quota_limits B \<lparr>metric = m, limit = L\<rparr> =
        Inr [\<lparr>resourceType = ''nvidia-tesla-'' @ lower kind, maximum = py_str B L\<rparr>]) \<and>
   (m \<noteq> ''CPUS'' \<and>
    (\<forall>k. k \<noteq> [] \<and> list_all in_A_Z_0_9 k \<longrightarrow>
       m \<noteq> ''NVIDIA_'' @ k @ ''_GPUS'' \<and> m \<noteq> ''NVIDIA_'' @ k @ ''_GPUS'' @ [CHR 0x0A]) \<longrightarrow>
      quota_limits B \<lparr>metric = m, limit = L\<rparr> = Inr []) \<and>
   generate_resource_limits B
     (Some [\<lparr>metric = ''CPUS'', limit = Int_value 10\<rparr>,
            \<lparr>metric = ''NVIDIA_V100_GPUS'', limit = Int_value 4\<rparr>]) =
     Inr (Some [\<lparr>resourceType = ''cpu'', maximum = ''10''\<rparr>,
                \<lparr>resourceType = ''memory'', maximum = ''640''\<rparr>,
                \<lparr>resourceType = ''nvidia-tesla-v100'', maximum = ''4''\<rparr>])"
proof -
  have ex: "generate_resource_limits B
     (Some [\<lparr>metric = ''CPUS'', limit = Int_value 10\<rparr>,
            \<lparr>metric = ''NVIDIA_V100_GPUS'', limit = Int_value 4\<rparr>]) =
     Inr (Some [\<lparr>resourceType = ''cpu'', maximum = ''10''\<rparr>,
                \<lparr>resourceType = ''memory'', maximum = ''640''\<rparr>,
                \<lparr>resourceType = ''nvidia-tesla-v100'', maximum = ''4''\<rparr>])"
    by (simp add: generate_resource_limits_def py_int_def py_str_def gpu_re_match_def
          in_A_Z_0_9_def MAX_GB_PER_CPU_def str_def str_nat.simps char_class_defs char_of_eq_iff)
  have builtins: "py_str B (Int_value i) = str i" "py_int B (Int_value i) = Inr i"
    "py_int B (Float_value fm fe) = Inr (float_trunc fm fe)"
    by (simp_all add: py_str_def py_int_def)
  show ?thesis
    using generate_gather [of B quotas] quota_limits_cpus [of B L] builtins
      quota_limits_gpu [of kind m B L] quota_limits_other [of m B L] ex
    by blast
qed

text \<open>The theorem above at concrete inputs.\<close>

theorem generate_resource_limits_rule_witness:
  "quota_limits example_builtins \<lparr>metric = ''NVIDIA_V100_GPUS'', limit = Float_value 10 0\<rparr> =
     Inr [\<lparr>resourceType = ''nvidia-tesla-v100'', maximum = ''10.0''\<rparr>] \<and>
   quota_limits example_builtins \<lparr>metric = ''NVIDIA_P100_VWS_GPUS'', limit = Int_value 4\<rparr> = Inr [] \<and>
   quota_limits example_builtins \<lparr>metric = ''CPUS'', limit = Float_value 10 0\<rparr> =
     Inr [\<lparr>resourceType = ''cpu'', maximum = ''10.0''\<rparr>,
          \<lparr>resourceType = ''memory'', maximum = ''640''\<rparr>]"
proof -
  have cls: "''V100'' \<noteq> [] \<and> list_all in_A_Z_0_9 ''V100''"
    by (simp add: in_A_Z_0_9_def in_A_Z_def in_0_9_def ord_def)
  have low: "lower ''V100'' = ''v100''"
    by (simp add: char_class_defs char_of_eq_iff)
  have s10: "py_str example_builtins (Float_value 10 0) = ''10.0''"
    by (simp add: py_str_def example_builtins_def float_trunc_def str_def str_nat.simps char_of_eq_iff)
  have i10: "py_int example_builtins (Float_value 10 0) = Inr 10"
    by (simp add: py_int_def float_trunc_def)
  have s640: "str 640 = ''640''"
    by (simp add: str_def str_nat.simps char_of_eq_iff)
  have none: "gpu_re_match ''NVIDIA_P100_VWS_GPUS'' = None"
    by (simp add: gpu_re_match_def in_A_Z_0_9_def in_A_Z_def in_0_9_def ord_def)
  have other: "\<forall>k. k \<noteq> [] \<and> list_all in_A_Z_0_9 k \<longrightarrow>
       ''NVIDIA_P100_VWS_GPUS'' \<noteq> ''NVIDIA_'' @ k @ ''_GPUS'' \<and>
       ''NVIDIA_P100_VWS_GPUS'' \<noteq> ''NVIDIA_'' @ k @ ''_GPUS'' @ [CHR 0x0A]"
  proof (intro allI impI)
    fix k assume k: "k \<noteq> [] \<and> list_all in_A_Z_0_9 k"
    have "gpu_re_match (''NVIDIA_'' @ k @ ''_GPUS'') = Some k"
      "gpu_re_match (''NVIDIA_'' @ k @ ''_GPUS'' @ [CHR 0x0A]) = Some k"
      using k gpu_re_match_kind [of k "[]"] gpu_re_match_kind [of k "[CHR 0x0A]"] by simp_all
    with none show "''NVIDIA_P100_VWS_GPUS'' \<noteq> ''NVIDIA_'' @ k @ ''_GPUS'' \<and>
       ''NVIDIA_P100_VWS_GPUS'' \<noteq> ''NVIDIA_'' @ k @ ''_GPUS'' @ [CHR 0x0A]"
      by (metis option.distinct(1))
  qed
  have ne: "''NVIDIA_P100_VWS_GPUS'' \<noteq> ''CPUS''" by simp
  have c1: "quota_limits example_builtins \<lparr>metric = ''NVIDIA_V100_GPUS'', limit = Float_value 10 0\<rparr> =
     Inr [\<lparr>resourceType = ''nvidia-tesla-v100'', maximum = ''10.0''\<rparr>]"
    using cls generate_resource_limits_rule
      [of example_builtins "[]" "Float_value 10 0" 0 0 0 "''V100''" "''NVIDIA_V100_GPUS''"]
    by (simp add: low s10)
  have c2: "quota_limits example_builtins \<lparr>metric = ''NVIDIA_P100_VWS_GPUS'', limit = Int_value 4\<rparr> = Inr []"
    using ne other generate_resource_limits_rule
      [of example_builtins "[]" "Int_value 4" 0 0 0 "''V100''" "''NVIDIA_P100_VWS_GPUS''"]
    by blast
  have c3: "quota_limits example_builtins \<lparr>metric = ''CPUS'', limit = Float_value 10 0\<rparr> =
     Inr [\<lparr>resourceType = ''cpu'', maximum = ''10.0''\<rparr>,
          \<lparr>resourceType = ''memory'', maximum = ''640''\<rparr>]"
    using generate_resource_limits_rule
      [of example_builtins "[]" "Float_value 10 0" 0 0 0 "''V100''" "''NVIDIA_V100_GPUS''"]
    by (simp add: s10 i10 s640)
  show ?thesis by (intro conjI c1 c2 c3)
qed

text \<open>
  C2, as stated, fails. For \<^verbatim>\<open>CPUS\<close> with the limit 10.5 the memory entry is 640,
  not 10.5 * 64, which is 672; and the metric \<^verbatim>\<open>NVIDIA_V100_GPUS\<close> followed by a
  newline is not ignored.
\<close>

theorem generate_resource_limits_counterexample:
  "generate_resource_limits example_builtins
     (Some [\<lparr>metric = ''CPUS'', limit = Float_value 21 (- 1)\<rparr>]) =
     Inr (Some [\<lparr>resourceType = ''cpu'', maximum = ''10.5''\<rparr>,
                \<lparr>resourceType = ''memory'', maximum = ''640''\<rparr>]) \<and>
   generate_resource_limits example_builtins
     (Some [\<lparr>metric = ''CPUS'', limit = Float_value 21 (- 1)\<rparr>]) \<noteq>
     Inr (Some [\<lparr>resourceType = ''cpu'', maximum = py_str example_builtins (Float_value 21 (- 1))\<rparr>,
                \<lparr>resourceType = ''memory'',
                 maximum = py_str example_builtins (Float_value (21 * 64) (- 1))\<rparr>]) \<and>
   py_str example_builtins (Float_value (21 * 64) (- 1)) = ''672.0'' \<and>
   generate_resource_limits example_builtins
     (Some [\<lparr>metric = ''NVIDIA_V100_GPUS'' @ [CHR 0x0A], limit = Int_value 4\<rparr>]) =
     Inr (Some [\<lparr>resourceType = ''nvidia-tesla-v100'', maximum = ''4''\<rparr>]) \<and>
   generate_resource_limits example_builtins
     (Some [\<lparr>metric = ''NVIDIA_V100_GPUS'' @ [CHR 0x0A], limit = Int_value 4\<rparr>]) \<noteq> Inr (Some [])"
  by (simp add: generate_resource_limits_def py_int_def py_str_def example_builtins_def
        float_trunc_def gpu_re_match_def in_A_Z_0_9_def MAX_GB_PER_CPU_def str_def str_nat.simps
        char_class_defs char_of_eq_iff)

subsection \<open>Job submission\<close>

lemma validate_tpu_iff:
  "fst (job_submit_validate_tpu (Some t) av) \<longleftrightarrow> (\<exists>ts. av = Some ts \<and> t \<in> set ts)"
  by (auto simp: job_submit_validate_tpu_def split: option.splits)

lemma submit_loop_submitted_acc:
  "fst (submit_loop submit jobs submitted log w) =
     submitted @ concat (map (\<lambda>r. case r of None \<Rightarrow> [] | Some sj \<Rightarrow> [sj]) (responses submit w jobs))"
proof (induction jobs arbitrary: submitted log w)
  case Nil
  show ?case by simp
next
  case (Cons j jobs)
  obtain r w' where s: "submit w j = (r, w')" by (cases "submit w j")
  show ?case
    using s by (cases r) (simp_all add: Cons.IH)
qed

lemma submit_loop_attempted_acc:
  "attempted (fst (snd (submit_loop submit jobs submitted log w))) = attempted log @ jobs"
proof (induction jobs arbitrary: submitted log w)
  case Nil
  show ?case by simp
next
  case (Cons j jobs)
  obtain r w' where s: "submit w j = (r, w')" by (cases "submit w j")
  show ?case
    using s by (cases r) (simp_all add: Cons.IH, simp_all add: attempted_def)
qed

lemma submit_loop_failures_acc:
  "logged_failures (fst (snd (submit_loop submit jobs submitted log w))) =
     logged_failures log @ map fst (filter (\<lambda>(j, r). r = None) (zip jobs (responses submit w jobs)))"
proof (induction jobs arbitrary: submitted log w)
  case Nil
  show ?case by simp
next
  case (Cons j jobs)
  obtain r w' where s: "submit w j = (r, w')" by (cases "submit w j")
  show ?case
    using s by (cases r) (simp_all add: Cons.IH, simp_all add: logged_failures_def)
qed

lemma submissions_append: "submissions (a @ b) = submissions a @ submissions b"
  by (simp add: submissions_def)

lemma submissions_gpu: "submissions (map Gpu_validation l) = []"
  by (induction l) (simp_all add: submissions_def)

lemma submissions_tpu: "submissions (map Tpu_validation l) = []"
  by (induction l) (simp_all add: submissions_def)

lemma job_submit_tpu_abort:
  assumes "\<not> fst (job_submit_validate_tpu (tpu_spec args) (available_tpu c))"
  shows "fst (job_submit D args c w) \<noteq> Inr (Some subm) \<and>
         submissions (fst (snd (job_submit D args c w))) = [] \<and>
         snd (snd (job_submit D args c w)) = w"
proof -
  define gs where "gs = (if job_mode args = GPU \<and> gpu_spec args = None then Some D else gpu_spec args)"
  obtain r glog where g: "validate_gpu_spec gs (zone_gpus c) (available_gpu c) = (r, glog)"
    by (cases "validate_gpu_spec gs (zone_gpus c) (available_gpu c)")
  obtain tlog where t: "job_submit_validate_tpu (tpu_spec args) (available_tpu c) = (False, tlog)"
    using assms by (cases "job_submit_validate_tpu (tpu_spec args) (available_tpu c)") auto
  have unfold: "job_submit D args c w =
     (case (r, glog) of
           (Inl e, glog) \<Rightarrow> (Inl e, map Gpu_validation glog, w)
         | (Inr ok, glog) \<Rightarrow>
             if \<not> ok then (Inr None, map Gpu_validation glog, w)
             else (Inr None, map Gpu_validation glog @ map Tpu_validation tlog, w))"
    unfolding job_submit_def gs_def [symmetric] Let_def g t
    by (simp split: sum.splits)
  show ?thesis
    unfolding unfold
    by (cases r) (simp_all add: submissions_append submissions_gpu submissions_tpu)
qed

lemma job_submit_runs_loop:
  "job_submit D \<lparr>job_mode = CPU, gpu_spec = None, tpu_spec = None, dry_run = False\<rparr> c w =
     (case submit_loop (cluster_submit_job c) (experiment_jobs c (None, 1)) [] [] w of
        (submitted, log, w') \<Rightarrow> (Inr (Some submitted), map Submission log, w'))"
  by (simp add: job_submit_def validate_gpu_spec_def job_submit_validate_tpu_def convert_accel_spec_def)

lemma submissions_Submission: "submissions (map Submission l) = l"
  by (induction l) (simp_all add: submissions_def)

lemma job_submit_passes:
  assumes gs: "gs = (if job_mode args = GPU \<and> gpu_spec args = None then Some D else gpu_spec args)"
    and g: "fst (validate_gpu_spec gs (zone_gpus c) (available_gpu c)) = Inr True"
    and t: "fst (job_submit_validate_tpu (tpu_spec args) (available_tpu c))"
    and a: "convert_accel_spec gs (tpu_spec args) = Some accel"
    and d: "\<not> dry_run args"
  shows "fst (job_submit D args c w) =
           Inr (Some (fst (submit_loop (cluster_submit_job c) (experiment_jobs c accel) [] [] w))) \<and>
         submissions (fst (snd (job_submit D args c w))) =
           fst (snd (submit_loop (cluster_submit_job c) (experiment_jobs c accel) [] [] w)) \<and>
         snd (snd (job_submit D args c w)) =
           snd (snd (submit_loop (cluster_submit_job c) (experiment_jobs c accel) [] [] w))"
proof -
  obtain glog where g': "validate_gpu_spec gs (zone_gpus c) (available_gpu c) = (Inr True, glog)"
    using g by (cases "validate_gpu_spec gs (zone_gpus c) (available_gpu c)") auto
  obtain tlog where t': "job_submit_validate_tpu (tpu_spec args) (available_tpu c) = (True, tlog)"
    using t by (cases "job_submit_validate_tpu (tpu_spec args) (available_tpu c)") auto
  obtain s l w' where
    loop: "submit_loop (cluster_submit_job c) (experiment_jobs c accel) [] [] w = (s, l, w')"
    by (cases "submit_loop (cluster_submit_job c) (experiment_jobs c accel) [] [] w")
  have "job_submit D args c w =
          (Inr (Some s), map Gpu_validation glog @ map Tpu_validation tlog @ map Submission l, w')"
    unfolding job_submit_def gs [symmetric] Let_def g' t' a
    using d loop by simp
  then show ?thesis
    by (simp add: loop submissions_append submissions_gpu submissions_tpu submissions_Submission)
qed

text \<open>
  C5. The loop submits every generated job, in order, whatever the outcome of the
  earlier submissions; it returns exactly the jobs whose submission returned a job, in
  submission order, and logs an error for exactly those whose submission returned
  \<open>None\<close>. With three jobs of which the second submission raises inside the API
  call, the result holds the first and the third job and the third was submitted.
  Whenever the GPU validation and the TPU check pass, the accelerator spec converts
  and the run is no dry run, \<open>job_submit\<close> submits every generated job and returns
  exactly the jobs whose submission returned a job.
\<close>

theorem submit_loop_partial_failure:
  "fst (submit_loop submit jobs [] [] w) =
     concat (map (\<lambda>r. case r of None \<Rightarrow> [] | Some sj \<Rightarrow> [sj]) (responses submit w jobs)) \<and>
   attempted (fst (snd (submit_loop submit jobs [] [] w))) = jobs \<and>
   logged_failures (fst (snd (submit_loop submit jobs [] [] w))) =
     map fst (filter (\<lambda>(j, r). r = None) (zip jobs (responses submit w jobs))) \<and>
   submit_loop
     (submit_job (\<lambda>w j. (if j = (2::nat) then Inl ''error'' else Inr j, Suc w))) [1, 2, 3] [] [] (0::nat) =
     ([1, 3],
      [Submit_job 1, Log_submitted 1, Submit_job 2, Log_error_submitting 2,
       Submit_job 3, Log_submitted 3], 3) \<and>
   (gs = (if job_mode args = GPU \<and> gpu_spec args = None then Some D else gpu_spec args) \<and>
    fst (validate_gpu_spec gs (zone_gpus c) (available_gpu c)) = Inr True \<and>
    fst (job_submit_validate_tpu (tpu_spec args) (available_tpu c)) \<and>
    convert_accel_spec gs (tpu_spec args) = Some accel \<and> \<not> dry_run args \<longrightarrow>
      fst (job_submit D args c w0) =
        Inr (Some (concat (map (\<lambda>r. case r of None \<Rightarrow> [] | Some sj \<Rightarrow> [sj])
                     (responses (cluster_submit_job c) w0 (experiment_jobs c accel))))) \<and>
      attempted (submissions (fst (snd (job_submit D args c w0)))) = experiment_jobs c accel \<and>
      logged_failures (submissions (fst (snd (job_submit D args c w0)))) =
        map fst (filter (\<lambda>(j, r). r = None)
          (zip (experiment_jobs c accel)
               (responses (cluster_submit_job c) w0 (experiment_jobs c accel)))))"
proof -
  have ex: "submit_loop
     (submit_job (\<lambda>w j. (if j = (2::nat) then Inl ''error'' else Inr j, Suc w))) [1, 2, 3] [] [] (0::nat) =
     ([1, 3],
      [Submit_job 1, Log_submitted 1, Submit_job 2, Log_error_submitting 2,
       Submit_job 3, Log_submitted 3], 3)"
    by (simp add: submit_job_def k_trap_def)
  have loop: "fst (submit_loop submit jobs [] [] w) =
     concat (map (\<lambda>r. case r of None \<Rightarrow> [] | Some sj \<Rightarrow> [sj]) (responses submit w jobs))"
    "attempted (fst (snd (submit_loop submit jobs [] [] w))) = jobs"
    "logged_failures (fst (snd (submit_loop submit jobs [] [] w))) =
     map fst (filter (\<lambda>(j, r). r = None) (zip jobs (responses submit w jobs)))"
    for submit :: "'x \<Rightarrow> 'y \<Rightarrow> 'z option \<times> 'x" and jobs w
    using submit_loop_submitted_acc [of submit jobs "[]" "[]" w]
      submit_loop_attempted_acc [of submit jobs "[]" "[]" w]
      submit_loop_failures_acc [of submit jobs "[]" "[]" w]
    by (simp_all add: attempted_def logged_failures_def)
  have whole: "fst (job_submit D args c w0) =
        Inr (Some (concat (map (\<lambda>r. case r of None \<Rightarrow> [] | Some sj \<Rightarrow> [sj])
                     (responses (cluster_submit_job c) w0 (experiment_jobs c accel))))) \<and>
      attempted (submissions (fst (snd (job_submit D args c w0)))) = experiment_jobs c accel \<and>
      logged_failures (submissions (fst (snd (job_submit D args c w0)))) =
        map fst (filter (\<lambda>(j, r). r = None)
          (zip (experiment_jobs c accel)
               (responses (cluster_submit_job c) w0 (experiment_jobs c accel))))"
    if "gs = (if job_mode args = GPU \<and> gpu_spec args = None then Some D else gpu_spec args)"
      "fst (validate_gpu_spec gs (zone_gpus c) (available_gpu c)) = Inr True"
      "fst (job_submit_validate_tpu (tpu_spec args) (available_tpu c))"
      "convert_accel_spec gs (tpu_spec args) = Some accel" "\<not> dry_run args"
    using job_submit_passes [OF that, of w0] loop [of "cluster_submit_job c" "experiment_jobs c accel" w0]
    by simp
  show ?thesis
    using ex loop [of submit jobs w] whole by blast
qed

text \<open>
  The theorem above for a GPU job with the default GPU spec and three generated jobs,
  the second of which fails to submit.
\<close>

theorem submit_loop_partial_failure_witness:
  "job_submit \<lparr>gpu = ''P100'', count = 1\<rparr>
     \<lparr>job_mode = GPU, gpu_spec = None, tpu_spec = (None :: string TPUSpec option),
       dry_run = False\<rparr>
     \<lparr>zone_gpus = Some [\<lparr>gpu = ''P100'', count = 4\<rparr>],
      available_gpu = Some [\<lparr>gpu = ''P100'', count = 8\<rparr>],
      available_tpu = None,
      experiment_jobs = (\<lambda>a. [1::nat, 2, 3]),
      cluster_submit_job = submit_job (\<lambda>w j. (if j = 2 then Inl ''error'' else Inr j, Suc w))\<rparr> (0::nat) =
   (Inr (Some [1, 3]),
    [Submission (Submit_job 1), Submission (Log_submitted 1), Submission (Submit_job 2),
     Submission (Log_error_submitting 2), Submission (Submit_job 3), Submission (Log_submitted 3)], 3)"
proof -
  define args :: "(string, string) submit_args"
    where "args = \<lparr>job_mode = GPU, gpu_spec = None, tpu_spec = None, dry_run = False\<rparr>"
  define c :: "(string, string, nat, nat, nat) cluster" where "c =
     \<lparr>zone_gpus = Some [\<lparr>gpu = ''P100'', count = 4\<rparr>],
      available_gpu = Some [\<lparr>gpu = ''P100'', count = 8\<rparr>],
      available_tpu = None,
      experiment_jobs = (\<lambda>a. [1::nat, 2, 3]),
      cluster_submit_job = submit_job (\<lambda>w j. (if j = 2 then Inl ''error'' else Inr j, Suc w))\<rparr>"
  define D :: "string GPUSpec" where "D = \<lparr>gpu = ''P100'', count = 1\<rparr>"
  have gs: "Some D = (if job_mode args = GPU \<and> gpu_spec args = None then Some D else gpu_spec args)"
    by (simp add: args_def)
  have g: "fst (validate_gpu_spec (Some D) (zone_gpus c) (available_gpu c)) = Inr True"
    by (simp add: c_def D_def validate_gpu_spec_def gpu_limits_of_def dict_def against_limits_present)
  have t: "fst (job_submit_validate_tpu (tpu_spec args) (available_tpu c))"
    by (simp add: args_def job_submit_validate_tpu_def)
  have a: "convert_accel_spec (Some D) (tpu_spec args) = Some (Some (GPU_kind ''P100''), 1)"
    by (simp add: args_def D_def convert_accel_spec_def)
  have d: "\<not> dry_run args" by (simp add: args_def)
  have r: "responses (cluster_submit_job c) 0 (experiment_jobs c (Some (GPU_kind ''P100''), 1)) =
      [Some 1, None, Some 3]"
    by (simp add: c_def submit_job_def k_trap_def)
  from submit_loop_partial_failure
    [of "cluster_submit_job c" "[]" "0::nat" "Some D" args D c "(Some (GPU_kind ''P100''), 1)" "0::nat"]
  have imp: "Some D = (if job_mode args = GPU \<and> gpu_spec args = None then Some D else gpu_spec args) \<and>
    fst (validate_gpu_spec (Some D) (zone_gpus c) (available_gpu c)) = Inr True \<and>
    fst (job_submit_validate_tpu (tpu_spec args) (available_tpu c)) \<and>
    convert_accel_spec (Some D) (tpu_spec args) = Some (Some (GPU_kind ''P100''), 1) \<and> \<not> dry_run args \<longrightarrow>
      fst (job_submit D args c 0) =
        Inr (Some (concat (map (\<lambda>r. case r of None \<Rightarrow> [] | Some sj \<Rightarrow> [sj])
                     (responses (cluster_submit_job c) 0
                        (experiment_jobs c (Some (GPU_kind ''P100''), 1))))))"
    by (elim conjE) simp
  have "fst (job_submit D args c 0) =
        Inr (Some (concat (map (\<lambda>r. case r of None \<Rightarrow> [] | Some sj \<Rightarrow> [sj])
                     (responses (cluster_submit_job c) 0
                        (experiment_jobs c (Some (GPU_kind ''P100''), 1))))))"
    by (rule mp [OF imp]) (intro conjI gs g t a d)
  then have "fst (job_submit D args c 0) = Inr (Some [1, 3])"
    unfolding r by simp
  moreover have "job_submit D args c 0 =
    (fst (job_submit D args c 0),
     [Submission (Submit_job 1), Submission (Log_submitted 1), Submission (Submit_job 2),
      Submission (Log_error_submitting 2), Submission (Submit_job 3), Submission (Log_submitted 3)], 3)"
    by (simp add: job_submit_def args_def c_def D_def validate_gpu_spec_def gpu_limits_of_def dict_def
          against_limits_present job_submit_validate_tpu_def convert_accel_spec_def submit_job_def k_trap_def)
  ultimately show ?thesis
    unfolding args_def c_def D_def by simp
qed

text \<open>
  C8. The TPU check passes for a requested spec exactly when the list of supported
  TPU specs was obtained and holds that very (kind, count) pair: a request for 2 is
  refused by a cluster that supports 8 of the same kind. When the check fails,
  \<open>job_submit\<close> returns no list of jobs, submits nothing and leaves the cluster as
  it was; with the GPU validation passed its result is a bare return. A TPU job
  without a GPU spec that is no dry run gets a list of submitted jobs from
  \<open>job_submit\<close> exactly when its pair is in the supported list, and then every job
  generated for that TPU spec is submitted.
\<close>

theorem job_submit_validate_tpu_membership:
  "(fst (job_submit_validate_tpu (Some (t :: 't TPUSpec)) avail) \<longleftrightarrow>
      (\<exists>ts. avail = Some ts \<and> t \<in> set ts)) \<and>
   job_submit_validate_tpu (Some \<lparr>tpu = v, count = 2\<rparr>) (Some [\<lparr>tpu = v, count = 8\<rparr>]) =
     (False, [Log_invalid_tpu_spec, Print_tpu v 8]) \<and>
   (\<not> fst (job_submit_validate_tpu (tpu_spec args) (available_tpu c)) \<longrightarrow>
      fst (job_submit (D :: 'g GPUSpec) args c w) \<noteq> Inr (Some submitted) \<and>
      submissions (fst (snd (job_submit D args c w))) = [] \<and>
      snd (snd (job_submit D args c w)) = w) \<and>
   (\<not> fst (job_submit_validate_tpu (Some t) (available_tpu c)) \<longrightarrow>
      fst (job_submit D \<lparr>job_mode = CPU, gpu_spec = None, tpu_spec = Some t, dry_run = d\<rparr> c w) =
        Inr None) \<and>
   ((\<exists>s. fst (job_submit D \<lparr>job_mode = CPU, gpu_spec = None, tpu_spec = Some t, dry_run = False\<rparr> c w) =
          Inr (Some s)) \<longleftrightarrow>
    (\<exists>ts. available_tpu c = Some ts \<and> t \<in> set ts)) \<and>
   ((\<exists>ts. available_tpu c = Some ts \<and> t \<in> set ts) \<longrightarrow>
      fst (job_submit D \<lparr>job_mode = CPU, gpu_spec = None, tpu_spec = Some t, dry_run = False\<rparr> c w) =
        Inr (Some (fst (submit_loop (cluster_submit_job c)
                     (experiment_jobs c (Some (TPU_kind (tpu t)), TPUSpec.count t)) [] [] w))) \<and>
      attempted (submissions (fst (snd
        (job_submit D \<lparr>job_mode = CPU, gpu_spec = None, tpu_spec = Some t, dry_run = False\<rparr> c w)))) =
        experiment_jobs c (Some (TPU_kind (tpu t)), TPUSpec.count t))"
proof -
  define A :: "('g, 't) submit_args"
    where "A = \<lparr>job_mode = CPU, gpu_spec = None, tpu_spec = Some t, dry_run = False\<rparr>"
  have none: "fst (job_submit D \<lparr>job_mode = CPU, gpu_spec = None, tpu_spec = Some t, dry_run = d\<rparr> c w) =
        Inr None"
    if nt: "\<not> fst (job_submit_validate_tpu (Some t) (available_tpu c))" for d
  proof -
    obtain tlog where tl: "job_submit_validate_tpu (Some t) (available_tpu c) = (False, tlog)"
      using nt by (cases "job_submit_validate_tpu (Some t) (available_tpu c)") auto
    show ?thesis
      by (simp add: job_submit_def validate_gpu_spec_def tl)
  qed
  have ex: "job_submit_validate_tpu (Some \<lparr>tpu = v, count = 2\<rparr>) (Some [\<lparr>tpu = v, count = 8\<rparr>]) =
     (False, [Log_invalid_tpu_spec, Print_tpu v 8])"
    by (simp add: job_submit_validate_tpu_def)
  have mem: "fst (job_submit_validate_tpu (Some t) av) \<longleftrightarrow> (\<exists>ts. av = Some ts \<and> t \<in> set ts)" for av
    by (rule validate_tpu_iff)
  have pass: "fst (job_submit D A c w) =
        Inr (Some (fst (submit_loop (cluster_submit_job c)
                     (experiment_jobs c (Some (TPU_kind (tpu t)), TPUSpec.count t)) [] [] w))) \<and>
      attempted (submissions (fst (snd (job_submit D A c w)))) =
        experiment_jobs c (Some (TPU_kind (tpu t)), TPUSpec.count t)"
    if m: "\<exists>ts. available_tpu c = Some ts \<and> t \<in> set ts"
  proof -
    have gs: "None = (if job_mode A = GPU \<and> gpu_spec A = None then Some D else gpu_spec A)"
      by (simp add: A_def)
    have g: "fst (validate_gpu_spec None (zone_gpus c) (available_gpu c)) = Inr True"
      by (simp add: validate_gpu_spec_def)
    have tp: "fst (job_submit_validate_tpu (tpu_spec A) (available_tpu c))"
      using m mem [of "available_tpu c"] by (simp add: A_def)
    have a: "convert_accel_spec None (tpu_spec A) = Some (Some (TPU_kind (tpu t)), TPUSpec.count t)"
      by (simp add: A_def convert_accel_spec_def)
    have d: "\<not> dry_run A" by (simp add: A_def)
    from job_submit_passes [OF gs g tp a d, of w]
      submit_loop_attempted_acc [of "cluster_submit_job c"
        "experiment_jobs c (Some (TPU_kind (tpu t)), TPUSpec.count t)" "[]" "[]" w]
    show ?thesis by (simp add: attempted_def)
  qed
  have iff: "(\<exists>s. fst (job_submit D A c w) = Inr (Some s)) \<longleftrightarrow>
    (\<exists>ts. available_tpu c = Some ts \<and> t \<in> set ts)"
  proof
    assume "\<exists>s. fst (job_submit D A c w) = Inr (Some s)"
    then show "\<exists>ts. available_tpu c = Some ts \<and> t \<in> set ts"
      using none [of False] mem [of "available_tpu c"] by (auto simp: A_def)
  next
    assume "\<exists>ts. available_tpu c = Some ts \<and> t \<in> set ts"
    from pass [OF this] show "\<exists>s. fst (job_submit D A c w) = Inr (Some s)" by blast
  qed
  show ?thesis
    using mem [of avail] ex job_submit_tpu_abort [of args c D w submitted] none [of d] iff pass
    unfolding A_def by blast
qed

text \<open>
  The theorem above for a cluster that supports 8 of a kind: a request for 2 is
  refused, a request for 8 is submitted.
\<close>

theorem job_submit_validate_tpu_membership_witness:
  "\<not> fst (job_submit_validate_tpu (Some \<lparr>tpu = ''V3'', count = 2\<rparr>)
         (Some [\<lparr>tpu = ''V3'', count = 8\<rparr>])) \<and>
   fst (job_submit \<lparr>gpu = ''P100'', count = 1\<rparr>
     \<lparr>job_mode = CPU, gpu_spec = None, tpu_spec = Some \<lparr>tpu = ''V3'', count = 2\<rparr>, dry_run = False\<rparr>
     \<lparr>zone_gpus = None, available_gpu = None, available_tpu = Some [\<lparr>tpu = ''V3'', count = 8\<rparr>],
      experiment_jobs = (\<lambda>a. [1::nat, 2]), cluster_submit_job = (\<lambda>w j. (Some j, Suc w))\<rparr> (0::nat)) =
     Inr None \<and>
   fst (job_submit \<lparr>gpu = ''P100'', count = 1\<rparr>
     \<lparr>job_mode = CPU, gpu_spec = None, tpu_spec = Some \<lparr>tpu = ''V3'', count = 8\<rparr>, dry_run = False\<rparr>
     \<lparr>zone_gpus = None, available_gpu = None, available_tpu = Some [\<lparr>tpu = ''V3'', count = 8\<rparr>],
      experiment_jobs = (\<lambda>a. [1::nat, 2]), cluster_submit_job = (\<lambda>w j. (Some j, Suc w))\<rparr> (0::nat)) =
     Inr (Some [1, 2])"
proof -
  define c :: "(string, string, nat, nat, nat) cluster" where "c =
    \<lparr>zone_gpus = None, available_gpu = None, available_tpu = Some [\<lparr>tpu = ''V3'', count = 8\<rparr>],
      experiment_jobs = (\<lambda>a. [1::nat, 2]), cluster_submit_job = (\<lambda>w j. (Some j, Suc w))\<rparr>"
  define D :: "string GPUSpec" where "D = \<lparr>gpu = ''P100'', count = 1\<rparr>"
  have no: "\<not> fst (job_submit_validate_tpu (Some \<lparr>tpu = ''V3'', count = 2\<rparr>) (available_tpu c))"
    by (simp add: c_def job_submit_validate_tpu_def)
  have yes: "\<exists>ts. available_tpu c = Some ts \<and> \<lparr>tpu = ''V3'', count = 8\<rparr> \<in> set ts"
    by (simp add: c_def)
  have loop: "fst (submit_loop (cluster_submit_job c)
      (experiment_jobs c (Some (TPU_kind (tpu \<lparr>tpu = ''V3'', count = 8\<rparr>)),
         TPUSpec.count \<lparr>tpu = ''V3'', count = 8\<rparr>)) [] [] (0::nat)) = [1, 2]"
    by (simp add: c_def)
  have "\<not> fst (job_submit_validate_tpu (Some \<lparr>tpu = ''V3'', count = 2\<rparr>) (available_tpu c)) \<longrightarrow>
      fst (job_submit D \<lparr>job_mode = CPU, gpu_spec = None, tpu_spec = Some \<lparr>tpu = ''V3'', count = 2\<rparr>,
             dry_run = False\<rparr> c 0) = Inr None"
    by (rule job_submit_validate_tpu_membership
      [where t = "\<lparr>tpu = ''V3'', count = 2\<rparr>" and c = c and D = D and w = "0::nat" and d = False,
       THEN conjunct2, THEN conjunct2, THEN conjunct2, THEN conjunct1])
  with no have c1: "fst (job_submit D \<lparr>job_mode = CPU, gpu_spec = None,
        tpu_spec = Some \<lparr>tpu = ''V3'', count = 2\<rparr>, dry_run = False\<rparr> c 0) = Inr None"
    by (rule rev_mp)
  have "(\<exists>ts. available_tpu c = Some ts \<and> \<lparr>tpu = ''V3'', count = 8\<rparr> \<in> set ts) \<longrightarrow>
      fst (job_submit D \<lparr>job_mode = CPU, gpu_spec = None, tpu_spec = Some \<lparr>tpu = ''V3'', count = 8\<rparr>,
             dry_run = False\<rparr> c 0) =
        Inr (Some (fst (submit_loop (cluster_submit_job c)
                     (experiment_jobs c (Some (TPU_kind (tpu \<lparr>tpu = ''V3'', count = 8\<rparr>)),
                        TPUSpec.count \<lparr>tpu = ''V3'', count = 8\<rparr>)) [] [] 0)))"
    using job_submit_validate_tpu_membership
      [where t = "\<lparr>tpu = ''V3'', count = 8\<rparr>" and c = c and D = D and w = "0::nat",
       THEN conjunct2, THEN conjunct2, THEN conjunct2, THEN conjunct2, THEN conjunct2]
    by (intro impI) (elim impE conjE, assumption+)
  with yes have c2: "fst (job_submit D \<lparr>job_mode = CPU, gpu_spec = None,
        tpu_spec = Some \<lparr>tpu = ''V3'', count = 8\<rparr>, dry_run = False\<rparr> c 0) = Inr (Some [1, 2])"
    unfolding loop by (rule rev_mp)
  from no c1 c2 show ?thesis
    unfolding c_def D_def by simp
qed

subsection \<open>Waiting for an operation\<close>

lemma wait_loop_skip:
  assumes "\<forall>j<n. \<exists>r. get (i + j) = Some r \<and> status r \<notin> set conditions"
  shows "wait_loop get conditions s i trace =
         wait_loop get conditions s (i + n) (trace @ concat (replicate n [Fetch, Sleep s]))"
  using assms
proof (induction n arbitrary: i trace)
  case 0
  show ?case by simp
next
  case (Suc n)
  from Suc.prems have "\<exists>r. get (i + 0) = Some r \<and> status r \<notin> set conditions"
    by blast
  then obtain r where r: "get i = Some r" "status r \<notin> set conditions" by auto
  have step: "wait_loop get conditions s i trace =
              wait_loop get conditions s (Suc i) (trace @ [Fetch, Sleep s])"
    by (subst wait_loop.simps) (simp add: r)
  have "\<forall>j<n. \<exists>r. get (Suc i + j) = Some r \<and> status r \<notin> set conditions"
  proof (intro allI impI)
    fix j assume "j < n"
    then have "Suc j < Suc n" by simp
    with Suc.prems have "\<exists>r. get (i + Suc j) = Some r \<and> status r \<notin> set conditions" by blast
    then show "\<exists>r. get (Suc i + j) = Some r \<and> status r \<notin> set conditions" by simp
  qed
  from Suc.IH [OF this, of "trace @ [Fetch, Sleep s]"] step
  show ?case by simp
qed

lemma fetches_replicate: "fetches (concat (replicate n [Fetch, Sleep s]) @ t) = n + fetches t"
  by (induction n) (simp_all add: fetches_def)

lemma wait_terminal:
  assumes "\<forall>j<n. \<exists>r. get j = Some r \<and> status r \<notin> set conditions"
    and "get n = Some rsp" and "status rsp \<in> set conditions"
  shows "wait_for_operation get conditions s =
           Some (Some rsp, concat (replicate n [Fetch, Sleep s]) @ [Fetch])"
proof -
  have "wait_for_operation get conditions s =
        wait_loop get conditions s n (concat (replicate n [Fetch, Sleep s]))"
    unfolding wait_for_operation_def using wait_loop_skip [of n get 0 conditions s "[]"] assms(1)
    by simp
  also have "\<dots> = Some (Some rsp, concat (replicate n [Fetch, Sleep s]) @ [Fetch])"
    by (subst wait_loop.simps) (simp add: assms)
  finally show ?thesis .
qed

lemma wait_fetch_error:
  assumes "\<forall>j<n. \<exists>r. get j = Some r \<and> status r \<notin> set conditions"
    and "get n = None"
  shows "wait_for_operation get conditions s =
           Some (None, concat (replicate n [Fetch, Sleep s]) @ [Fetch, Log_error_getting_operation])"
proof -
  have "wait_for_operation get conditions s =
        wait_loop get conditions s n (concat (replicate n [Fetch, Sleep s]))"
    unfolding wait_for_operation_def using wait_loop_skip [of n get 0 conditions s "[]"] assms(1)
    by simp
  also have "\<dots> = Some (None, concat (replicate n [Fetch, Sleep s]) @ [Fetch, Log_error_getting_operation])"
    by (subst wait_loop.simps) (simp add: assms)
  finally show ?thesis .
qed

lemma wait_never_aux:
  assumes all: "\<forall>j. \<exists>r. get j = Some r \<and> status r \<notin> set conditions"
    and res: "wait_loop g c s i tr = Some res"
  shows "\<not> (g = get \<and> c = conditions)"
proof (rule wait_loop.raw_induct [where P = "\<lambda>g c s' i tr res. \<not> (g = get \<and> c = conditions)", OF _ res])
  fix f g c s' i tr res'
  assume IH: "\<And>g c s' i tr res. f g c s' i tr = Some res \<Longrightarrow> \<not> (g = get \<and> c = conditions)"
    and eq: "(case g i of None \<Rightarrow> Some (None, tr @ [Fetch, Log_error_getting_operation])
          | Some rsp \<Rightarrow> if status rsp \<in> set c then Some (Some rsp, tr @ [Fetch])
                        else f g c s' (Suc i) (tr @ [Fetch, Sleep s'])) = Some res'"
  show "\<not> (g = get \<and> c = conditions)"
  proof
    assume gc: "g = get \<and> c = conditions"
    from all gc obtain r where r: "g i = Some r" "status r \<notin> set c" by blast
    with eq have "f g c s' (Suc i) (tr @ [Fetch, Sleep s']) = Some res'" by simp
    from IH [OF this] gc show False by simp
  qed
qed

lemma wait_never:
  assumes "\<forall>j. \<exists>r. get j = Some r \<and> status r \<notin> set conditions"
  shows "wait_for_operation get conditions s = None"
proof (cases "wait_for_operation get conditions s")
  case None
  then show ?thesis .
next
  case (Some res)
  then have "wait_loop get conditions s 0 [] = Some res"
    by (simp add: wait_for_operation_def)
  from wait_never_aux [OF assms this] show ?thesis by simp
qed

text \<open>
  C6. If the first \<open>n\<close> fetches return responses whose status is not terminal and
  fetch number \<open>n\<close> returns a response with a terminal status, the function returns
  that response after \<open>n + 1\<close> fetches with a sleep between consecutive fetches; if
  fetch number \<open>n\<close> returns no response, it returns \<open>None\<close> at once, with the
  error logged; if no fetch ever returns a terminal status or fails, it never returns.
  For PENDING, PENDING, DONE and the default conditions it returns the DONE response
  after exactly 3 fetches.
\<close>

theorem wait_for_operation_first_terminal:
  "((\<forall>j<n. \<exists>r. get j = Some r \<and> status r \<notin> set conditions) \<and>
      get n = Some rsp \<and> status rsp \<in> set conditions \<longrightarrow>
      wait_for_operation get conditions s =
        Some (Some rsp, concat (replicate n [Fetch, Sleep s]) @ [Fetch]) \<and>
      fetches (concat (replicate n [Fetch, Sleep s]) @ [Fetch]) = Suc n) \<and>
   ((\<forall>j<n. \<exists>r. get j = Some r \<and> status r \<notin> set conditions) \<and> get n = None \<longrightarrow>
      wait_for_operation get conditions s =
        Some (None, concat (replicate n [Fetch, Sleep s]) @ [Fetch, Log_error_getting_operation])) \<and>
   ((\<forall>j. \<exists>r. get j = Some r \<and> status r \<notin> set conditions) \<longrightarrow>
      wait_for_operation get conditions s = None) \<and>
   wait_for_operation
     (\<lambda>i. if i < 2 then Some \<lparr>status = ''PENDING''\<rparr> else Some \<lparr>status = ''DONE''\<rparr>)
     default_conditions default_sleep_sec =
     Some (Some \<lparr>status = ''DONE''\<rparr>, [Fetch, Sleep 1, Fetch, Sleep 1, Fetch]) \<and>
   fetches [Fetch, Sleep 1, Fetch, Sleep 1, Fetch] = 3"
proof -
  have ex: "wait_for_operation
     (\<lambda>i. if i < 2 then Some \<lparr>status = ''PENDING''\<rparr> else Some \<lparr>status = ''DONE''\<rparr>)
     default_conditions default_sleep_sec =
     Some (Some \<lparr>status = ''DONE''\<rparr>, [Fetch, Sleep 1, Fetch, Sleep 1, Fetch])"
    by (simp add: wait_for_operation_def wait_loop.simps default_conditions_def default_sleep_sec_def)
  have f3: "fetches [Fetch, Sleep 1, Fetch, Sleep 1, Fetch] = 3"
    by (simp add: fetches_def)
  have fn: "fetches (concat (replicate n [Fetch, Sleep s]) @ [Fetch]) = Suc n"
    by (simp add: fetches_replicate) (simp add: fetches_def)
  show ?thesis
    using ex f3 fn wait_terminal [of n get conditions rsp s] wait_fetch_error [of n get conditions s]
      wait_never [of get conditions s]
    by blast
qed

text \<open>The theorem above at concrete inputs.\<close>

theorem wait_for_operation_first_terminal_witness:
  "wait_for_operation
     (\<lambda>i. if i < 2 then Some \<lparr>status = ''PENDING''\<rparr> else Some \<lparr>status = ''DONE''\<rparr>)
     default_conditions 1 =
     Some (Some \<lparr>status = ''DONE''\<rparr>, concat (replicate 2 [Fetch, Sleep 1]) @ [Fetch]) \<and>
   wait_for_operation (\<lambda>i. if i < 1 then Some \<lparr>status = ''PENDING''\<rparr> else None)
     default_conditions 1 =
     Some (None, concat (replicate 1 [Fetch, Sleep 1]) @ [Fetch, Log_error_getting_operation]) \<and>
   wait_for_operation (\<lambda>i. Some \<lparr>status = ''PENDING''\<rparr>) default_conditions 1 = None"
proof -
  have h1: "\<forall>j<2. \<exists>r. (\<lambda>i. if i < (2::nat) then Some \<lparr>status = ''PENDING''\<rparr> else Some \<lparr>status = ''DONE''\<rparr>) j = Some r \<and>
        status r \<notin> set default_conditions"
    by (simp add: default_conditions_def)
  have h2: "\<forall>j<1. \<exists>r. (\<lambda>i. if i < (1::nat) then Some \<lparr>status = ''PENDING''\<rparr> else None) j = Some r \<and>
        status r \<notin> set default_conditions"
    by (simp add: default_conditions_def)
  have h3: "\<forall>j::nat. \<exists>r. (\<lambda>i. Some \<lparr>status = ''PENDING''\<rparr>) j = Some r \<and> status r \<notin> set default_conditions"
    by (simp add: default_conditions_def)
  have d: "status \<lparr>status = ''DONE''\<rparr> \<in> set default_conditions"
    by (simp add: default_conditions_def)
  from h1 d wait_for_operation_first_terminal
      [of 2 "\<lambda>i. if i < 2 then Some \<lparr>status = ''PENDING''\<rparr> else Some \<lparr>status = ''DONE''\<rparr>"
          default_conditions "\<lparr>status = ''DONE''\<rparr>" 1]
  have c1: "wait_for_operation (\<lambda>i. if i < 2 then Some \<lparr>status = ''PENDING''\<rparr> else Some \<lparr>status = ''DONE''\<rparr>)
     default_conditions 1 =
     Some (Some \<lparr>status = ''DONE''\<rparr>, concat (replicate 2 [Fetch, Sleep 1]) @ [Fetch])"
    by simp
  from h2 wait_for_operation_first_terminal
      [of 1 "\<lambda>i. if i < 1 then Some \<lparr>status = ''PENDING''\<rparr> else None" default_conditions _ 1]
  have c2: "wait_for_operation (\<lambda>i. if i < 1 then Some \<lparr>status = ''PENDING''\<rparr> else None) default_conditions 1 =
     Some (None, concat (replicate 1 [Fetch, Sleep 1]) @ [Fetch, Log_error_getting_operation])"
    by simp
  from h3 wait_for_operation_first_terminal
      [of _ "\<lambda>i. Some \<lparr>status = ''PENDING''\<rparr>" default_conditions _ 1]
  have c3: "wait_for_operation (\<lambda>i. Some \<lparr>status = ''PENDING''\<rparr>) default_conditions 1 = None"
    by simp
  show ?thesis by (intro conjI c1 c2 c3)
qed

subsection \<open>Deleting a cluster\<close>

lemma rsp_unbound: "load_name [(''self'', PyObject), (''op'', v), (''op_name'', PyStr x)] module_globals ''rsp'' = Inl NameError"
  by (simp add: load_name_def module_globals_def)

lemma delete_waited:
  assumes "wait_for_operation get default_conditions default_sleep_sec = Some (r, trace)"
  shows "delete (Some x) get = Some (Inl NameError, map Waiting trace)"
  using assms by (simp add: delete_def Let_def rsp_unbound)

lemma delete_no_success:
  "delete op0 get = Some (res, evs) \<Longrightarrow> Print_deleted \<notin> set evs"
  by (cases op0; cases "wait_for_operation get default_conditions default_sleep_sec")
     (auto simp: delete_def Let_def rsp_unbound)

text \<open>
  C10. Once the delete operation was issued and the wait for it has returned,
  \<open>delete\<close> raises \<^verbatim>\<open>NameError\<close> at the read of \<^verbatim>\<open>rsp\<close>, whatever the wait
  returned; and on no run does \<open>delete\<close> print the success message.
\<close>

theorem delete_never_succeeds:
  "(wait_for_operation get default_conditions default_sleep_sec = Some (r, trace) \<longrightarrow>
      delete (Some x) get = Some (Inl NameError, map Waiting trace)) \<and>
   (delete op0 get = Some (res, evs) \<longrightarrow> Print_deleted \<notin> set evs)"
  using delete_waited [of get r trace x] delete_no_success [of op0 get res evs]
  by blast

text \<open>The theorem above at concrete inputs.\<close>

theorem delete_never_succeeds_witness:
  "wait_for_operation (\<lambda>i. Some \<lparr>status = ''DONE''\<rparr>) default_conditions default_sleep_sec =
     Some (Some \<lparr>status = ''DONE''\<rparr>, [Fetch]) \<and>
   delete (Some ''operation-1'') (\<lambda>i. Some \<lparr>status = ''DONE''\<rparr>) = Some (Inl NameError, [Waiting Fetch]) \<and>
   Print_deleted \<notin> set [Waiting Fetch]"
proof -
  have w: "wait_for_operation (\<lambda>i. Some \<lparr>status = ''DONE''\<rparr>) default_conditions default_sleep_sec =
     Some (Some \<lparr>status = ''DONE''\<rparr>, [Fetch])"
    by (simp add: wait_for_operation_def wait_loop.simps default_conditions_def)
  from w delete_never_succeeds
    [of "\<lambda>i. Some \<lparr>status = ''DONE''\<rparr>" "Some \<lparr>status = ''DONE''\<rparr>" "[Fetch]" "''operation-1''"
        "Some ''operation-1''" "Inl NameError" "[Waiting Fetch]"]
  show ?thesis by simp
qed

end
